theory Spec2Isabelle
  imports Main
begin

text \<open>
  The request pipeline of the tasks API: the schemas that validate bodies and queries,
  the five route handlers, the statements they send to the store, and the error handler
  of the application. A request is a function from the store (and from what the clocks
  and the identifier generator give) to a response and the store that is left.
\<close>

section \<open>The task entity (src/db/schemas/tasks.schema.ts)\<close>

text \<open>
  The two PostgreSQL enums \<^verbatim>\<open>task_status\<close> and \<^verbatim>\<open>task_priority\<close>. The constructors
  are capitalised (\<open>done\<close> is a keyword of Isar); \<open>status_labels\<close> and \<open>priority_labels\<close>
  below give the labels the source writes.
\<close>

datatype task_status = Todo | In_progress | Done

datatype task_priority = Low | Medium | High

text \<open>
  A value of the column type \<^verbatim>\<open>uuid\<close> is sixteen bytes. A timestamp is an instant on
  an integer time line (the unit plays no role below).
\<close>

type_synonym uuid = "nat list"

type_synonym timestamp = int

text \<open>
  A row of table \<^verbatim>\<open>tasks\<close>. The column \<^verbatim>\<open>id\<close> is the field \<open>task_id\<close> (\<open>id\<close> is the
  identity function of HOL); \<^verbatim>\<open>description\<close> is the only nullable column.
\<close>

record task =
  task_id :: uuid
  title :: string
  description :: "string option"
  status :: task_status
  priority :: task_priority
  createdAt :: timestamp
  updatedAt :: timestamp

text \<open>
  The store: table \<^verbatim>\<open>tasks\<close> as the list of its rows, in the order in which the store scans
  them (no query of the source has an ORDER BY), and the number of statements sent to
  the store so far. The counter is not in the source; it is what ``storage access''
  means below, since every call of \<^verbatim>\<open>db\<close> is one HTTP request to the store.
\<close>

record db =
  tasks :: "task list"
  sent :: nat

section \<open>Identifiers\<close>

subsection \<open>The pattern of the GET handler\<close>

text \<open>
  \<^verbatim>\<open>/^[0-9a-f]{8}-[0-9a-f]{4}-4[0-9a-f]{3}-[89ab][0-9a-f]{3}-[0-9a-f]{12}$/i\<close>
  The pattern is anchored at both ends and every atom matches exactly one character, so
  it is a sequence of 36 character classes. With the flag \<^verbatim>\<open>i\<close> the class \<^verbatim>\<open>[0-9a-f]\<close> also
  matches \<^verbatim>\<open>A-F\<close>, and \<^verbatim>\<open>[89ab]\<close> also matches \<^verbatim>\<open>A\<close> and \<^verbatim>\<open>B\<close>.
\<close>

definition hex_class :: "char \<Rightarrow> bool" where
  "hex_class c = (c \<in> set ''0123456789abcdefABCDEF'')"

definition dash_class :: "char \<Rightarrow> bool" where
  "dash_class c = (c = CHR ''-'')"

definition version_class :: "char \<Rightarrow> bool" where
  "version_class c = (c = CHR ''4'')"

definition variant_class :: "char \<Rightarrow> bool" where
  "variant_class c = (c \<in> set ''89abAB'')"

definition uuidRegex :: "(char \<Rightarrow> bool) list" where
  "uuidRegex =
     replicate 8 hex_class @ [dash_class] @
     replicate 4 hex_class @ [dash_class] @
     [version_class] @ replicate 3 hex_class @ [dash_class] @
     [variant_class] @ replicate 3 hex_class @ [dash_class] @
     replicate 12 hex_class"

definition regex_test :: "(char \<Rightarrow> bool) list \<Rightarrow> string \<Rightarrow> bool" where
  "regex_test re s = list_all2 (\<lambda>cls c. cls c) re s"

subsection \<open>The input syntax of the column type\<close>

text \<open>
  The column \<^verbatim>\<open>id\<close> is declared \<^verbatim>\<open>uuid\<close> (tasks.schema.ts, line 46; the migration, line 4),
  and every handler passes the path parameter to the store as text in
  \<^verbatim>\<open>eq(tasks.id, id)\<close>. The store converts the text to a \<^verbatim>\<open>uuid\<close> before it compares, and
  the statement fails when the text is no \<^verbatim>\<open>uuid\<close> (the tutorial's table of patterns:
  ``PostgreSQL would error on invalid UUID; we catch it earlier''). PostgreSQL reads
  sixteen bytes of two hexadecimal digits each, in either case, lets a hyphen follow any
  group of four digits but the last, and lets braces surround the whole (its manual,
  section 8.12 on the type; \<^verbatim>\<open>string_to_uuid\<close> in its \<^verbatim>\<open>uuid.c\<close>, which \<open>uuid_bytes\<close> and
  \<open>uuid_in\<close> follow). Two texts address the same row when they read as the same bytes.
\<close>

definition hexval :: "char \<Rightarrow> nat" where
  "hexval c =
     (if c \<in> set ''0123456789'' then of_char c - 48
      else if c \<in> set ''abcdef'' then of_char c - 87
      else of_char c - 55)"

text \<open>\<open>uuid_bytes n src\<close> reads the last \<open>n\<close> of the sixteen bytes; the byte read first has index \<open>16 - n\<close>.\<close>

fun uuid_bytes :: "nat \<Rightarrow> string \<Rightarrow> (uuid \<times> string) option" where
  "uuid_bytes 0 src = Some ([], src)"
| "uuid_bytes (Suc n) (a # b # src) =
     (if hex_class a \<and> hex_class b
      then (case uuid_bytes n
                   (case src of
                      [] \<Rightarrow> src
                    | c # r \<Rightarrow> if c = CHR ''-'' \<and> (15 - n) mod 2 = 1 \<and> 15 - n < 15 then r else src) of
              None \<Rightarrow> None
            | Some (bs, rest) \<Rightarrow> Some ((hexval a * 16 + hexval b) # bs, rest))
      else None)"
| "uuid_bytes (Suc n) src = None"

definition uuid_in :: "string \<Rightarrow> uuid option" where
  "uuid_in src =
     (case src of
        [] \<Rightarrow> None
      | c # r \<Rightarrow>
          if c = CHR ''{''
          then (case uuid_bytes 16 r of
                  None \<Rightarrow> None
                | Some (bs, rest) \<Rightarrow> if rest = ''}'' then Some bs else None)
          else (case uuid_bytes 16 src of
                  None \<Rightarrow> None
                | Some (bs, rest) \<Rightarrow> if rest = [] then Some bs else None))"

section \<open>Errors and responses (src/middleware/error-handler.ts)\<close>

text \<open>
  What a handler can throw: an \<^verbatim>\<open>ApiError\<close> with its status, message and code, or any
  other error (the rejection of a statement by the store among them), of which only the
  message is kept. The error handler also writes the error to the log, which is no part
  of the response and is left out.
\<close>

datatype thrown =
  ApiError nat string string
| OtherError string

text \<open>
  An issue of a failed schema is kept as its path: the key whose value is refused (the
  empty path when the input as a whole is refused).
\<close>

type_synonym issue = string

definition root_path :: issue where
  "root_path = []"

text \<open>
  The four bodies the application sends for the task routes:
  \<^item> \<open>TaskBody t\<close> is \<^verbatim>\<open>{success: true, data: t}\<close>;
  \<^item> \<open>ListBody ts limit offset count\<close> is \<^verbatim>\<open>{success: true, data: ts, meta: {limit, offset, count}}\<close>;
  \<^item> \<open>ErrorBody message code\<close> is \<^verbatim>\<open>{success: false, error: {message, code}}\<close>;
  \<^item> \<open>ZodErrorBody issues\<close> is the failed parse result that the validator middleware
    serialises, \<^verbatim>\<open>{success: false, error: {name: "ZodError", ...issues...}}\<close>, whose
    \<^verbatim>\<open>error\<close> has no \<^verbatim>\<open>code\<close>.
\<close>

datatype resp_body =
  TaskBody task
| ListBody "task list" int int nat
| ErrorBody string string
| ZodErrorBody "issue list"

record response =
  statusCode :: nat
  body :: resp_body

definition json :: "resp_body \<Rightarrow> nat \<Rightarrow> response" where
  "json b s = \<lparr>statusCode = s, body = b\<rparr>"

fun errorHandler :: "thrown \<Rightarrow> response" where
  "errorHandler (ApiError s message code) = json (ErrorBody message code) s"
| "errorHandler (OtherError message) = json (ErrorBody ''Internal Server Error'' ''INTERNAL_ERROR'') 500"

text \<open>
  \<^verbatim>\<open>app.onError(errorHandler)\<close>: a handler that returns sends its response, a handler that
  throws is answered by the error handler.
\<close>

definition onError :: "thrown + response \<Rightarrow> response" where
  "onError r = (case r of Inl err \<Rightarrow> errorHandler err | Inr resp \<Rightarrow> resp)"

section \<open>The statements sent to the store (src/db/index.ts, drizzle-orm)\<close>

definition invalid_uuid :: thrown where
  "invalid_uuid = OtherError ''invalid input syntax for type uuid''"

definition round_trip :: "db \<Rightarrow> db" where
  "round_trip d = d\<lparr>sent := sent d + 1\<rparr>"

text \<open>\<^verbatim>\<open>db.select().from(tasks).where(eq(tasks.id, id)).limit(1)\<close>\<close>

definition select_by_id :: "db \<Rightarrow> string \<Rightarrow> (thrown + task list) \<times> db" where
  "select_by_id d ident =
     (case uuid_in ident of
        None \<Rightarrow> (Inl invalid_uuid, round_trip d)
      | Some u \<Rightarrow> (Inr (take 1 (filter (\<lambda>t. task_id t = u) (tasks d))), round_trip d))"

text \<open>
  \<^verbatim>\<open>db.delete(tasks).where(eq(tasks.id, id)).returning()\<close>: the rows deleted are returned,
  the others remain.
\<close>

definition delete_by_id :: "db \<Rightarrow> string \<Rightarrow> (thrown + task list) \<times> db" where
  "delete_by_id d ident =
     (case uuid_in ident of
        None \<Rightarrow> (Inl invalid_uuid, round_trip d)
      | Some u \<Rightarrow>
          (Inr (filter (\<lambda>t. task_id t = u) (tasks d)),
           round_trip (d\<lparr>tasks := filter (\<lambda>t. task_id t \<noteq> u) (tasks d)\<rparr>)))"

text \<open>
  The conditions the list handler builds with \<^verbatim>\<open>eq\<close> and \<^verbatim>\<open>and\<close>, and the rows they hold of.
\<close>

datatype condition =
  Eq_status task_status
| Eq_priority task_priority
| And "condition list"

fun holds :: "condition \<Rightarrow> task \<Rightarrow> bool" where
  "holds (Eq_status s) t = (status t = s)"
| "holds (Eq_priority p) t = (priority t = p)"
| "holds (And cs) t = list_all (\<lambda>c. holds c t) cs"

text \<open>
  \<^verbatim>\<open>db.select({...}).from(tasks)\<close>, with \<^verbatim>\<open>.where(c)\<close> or without, then
  \<^verbatim>\<open>.limit(limit).offset(offset)\<close>: the store skips \<open>offset\<close> of the rows that satisfy the
  condition and returns at most \<open>limit\<close> of the others. The seven columns selected are
  all the columns of the table.
\<close>

definition select_tasks :: "db \<Rightarrow> condition option \<Rightarrow> int \<Rightarrow> int \<Rightarrow> (thrown + task list) \<times> db" where
  "select_tasks d wh limit offset =
     (Inr (take (nat limit) (drop (nat offset)
             (case wh of None \<Rightarrow> tasks d | Some c \<Rightarrow> filter (holds c) (tasks d)))),
      round_trip d)"

section \<open>Request bodies and the schemas (zod)\<close>

text \<open>
  A parsed JSON value. The members of an object are kept in the order of the text, and
  a key written twice has its last value, as \<^verbatim>\<open>JSON.parse\<close> gives it. No schema of the
  source accepts a number, so the numbers are not modelled beyond integers.
\<close>

datatype json_value =
  JNull
| JBool bool
| JNumber int
| JString string
| JArray "json_value list"
| JObject "(string \<times> json_value) list"

definition lookup_key :: "(string \<times> json_value) list \<Rightarrow> string \<Rightarrow> json_value option" where
  "lookup_key members k = map_of (rev members) k"

text \<open>The result of one schema on one value (\<open>None\<close> is \<^verbatim>\<open>undefined\<close>, a key that is absent).\<close>

datatype 'a parsed = Invalid | Valid 'a

text \<open>
  \<^verbatim>\<open>z.string().min(lo).max(hi)\<close>: the length is the one of the string as it was sent
  (the strings of the model are those of the characters U+0000 to U+00FF, each one code
  unit of the source string); no schema of the source calls \<^verbatim>\<open>.trim()\<close>.
\<close>

definition z_string_min_max :: "nat \<Rightarrow> nat \<Rightarrow> json_value option \<Rightarrow> string parsed" where
  "z_string_min_max lo hi v =
     (case v of
        Some (JString s) \<Rightarrow> if length s < lo then Invalid else if hi < length s then Invalid else Valid s
      | _ \<Rightarrow> Invalid)"

definition z_string :: "json_value option \<Rightarrow> string parsed" where
  "z_string v = (case v of Some (JString s) \<Rightarrow> Valid s | _ \<Rightarrow> Invalid)"

definition z_enum :: "(string \<times> 'a) list \<Rightarrow> json_value option \<Rightarrow> 'a parsed" where
  "z_enum labels v =
     (case v of
        Some (JString s) \<Rightarrow> (case map_of labels s of None \<Rightarrow> Invalid | Some x \<Rightarrow> Valid x)
      | _ \<Rightarrow> Invalid)"

definition status_labels :: "(string \<times> task_status) list" where
  "status_labels = [(''todo'', Todo), (''in_progress'', In_progress), (''done'', Done)]"

definition priority_labels :: "(string \<times> task_priority) list" where
  "priority_labels = [(''low'', Low), (''medium'', Medium), (''high'', High)]"

text \<open>\<^verbatim>\<open>.optional()\<close>: an absent key is accepted and stays absent.\<close>

definition optional :: "(json_value option \<Rightarrow> 'a parsed) \<Rightarrow> json_value option \<Rightarrow> 'a option parsed" where
  "optional schema v =
     (case v of
        None \<Rightarrow> Valid None
      | Some x \<Rightarrow> (case schema v of Invalid \<Rightarrow> Invalid | Valid y \<Rightarrow> Valid (Some y)))"

text \<open>\<^verbatim>\<open>.nullable()\<close>: \<^verbatim>\<open>null\<close> is accepted and stays \<^verbatim>\<open>null\<close>.\<close>

definition nullable :: "(json_value option \<Rightarrow> 'a parsed) \<Rightarrow> json_value option \<Rightarrow> 'a option parsed" where
  "nullable schema v =
     (case v of
        Some JNull \<Rightarrow> Valid None
      | _ \<Rightarrow> (case schema v of Invalid \<Rightarrow> Invalid | Valid y \<Rightarrow> Valid (Some y)))"

text \<open>
  \<^verbatim>\<open>.optional().default(x)\<close>: an absent key is given the value \<open>x\<close>, which the schema
  then parses as it parses a value that was sent; so no result is absent.
\<close>

definition optional_default :: "(json_value option \<Rightarrow> 'a parsed) \<Rightarrow> json_value \<Rightarrow> json_value option \<Rightarrow> 'a parsed" where
  "optional_default schema x v = schema (Some (case v of None \<Rightarrow> x | Some y \<Rightarrow> y))"

definition refused :: "string \<Rightarrow> 'a parsed \<Rightarrow> issue list" where
  "refused k r = (case r of Invalid \<Rightarrow> [k] | Valid x \<Rightarrow> [])"

text \<open>
  The output of \<open>createTaskSchema\<close>. The description is absent (\<open>None\<close>), \<^verbatim>\<open>null\<close>
  (\<open>Some None\<close>) or a string.
\<close>

record create_input =
  c_title :: string
  c_description :: "string option option"
  c_status :: task_status
  c_priority :: task_priority

text \<open>\<^verbatim>\<open>z.object\<close> reads the keys of its shape and drops every other key of the input.\<close>

definition createTaskSchema :: "json_value \<Rightarrow> issue list + create_input" where
  "createTaskSchema input =
     (case input of
        JObject members \<Rightarrow>
          (case (z_string_min_max 1 256 (lookup_key members ''title''),
                 optional (nullable z_string) (lookup_key members ''description''),
                 optional_default (z_enum status_labels) (JString ''todo'') (lookup_key members ''status''),
                 optional_default (z_enum priority_labels) (JString ''medium'') (lookup_key members ''priority'')) of
             (Valid t, Valid de, Valid s, Valid p) \<Rightarrow>
               Inr \<lparr>c_title = t, c_description = de, c_status = s, c_priority = p\<rparr>
           | (t, de, s, p) \<Rightarrow>
               Inl (refused ''title'' t @ refused ''description'' de @
                    refused ''status'' s @ refused ''priority'' p))
      | _ \<Rightarrow> Inl [root_path])"

text \<open>The output of \<open>updateTaskSchema\<close>: every key may be absent.\<close>

record update_input =
  u_title :: "string option"
  u_description :: "string option option"
  u_status :: "task_status option"
  u_priority :: "task_priority option"

definition updateTaskSchema :: "json_value \<Rightarrow> issue list + update_input" where
  "updateTaskSchema input =
     (case input of
        JObject members \<Rightarrow>
          (case (optional (z_string_min_max 1 256) (lookup_key members ''title''),
                 optional (nullable z_string) (lookup_key members ''description''),
                 optional (z_enum status_labels) (lookup_key members ''status''),
                 optional (z_enum priority_labels) (lookup_key members ''priority'')) of
             (Valid t, Valid de, Valid s, Valid p) \<Rightarrow>
               Inr \<lparr>u_title = t, u_description = de, u_status = s, u_priority = p\<rparr>
           | (t, de, s, p) \<Rightarrow>
               Inl (refused ''title'' t @ refused ''description'' de @
                    refused ''status'' s @ refused ''priority'' p))
      | _ \<Rightarrow> Inl [root_path])"

text \<open>\<^verbatim>\<open>Object.keys(body)\<close> on the output of \<open>updateTaskSchema\<close>: the keys that are present.\<close>

definition Object_keys :: "update_input \<Rightarrow> string list" where
  "Object_keys b =
     (case u_title b of None \<Rightarrow> [] | Some x \<Rightarrow> [''title'']) @
     (case u_description b of None \<Rightarrow> [] | Some x \<Rightarrow> [''description'']) @
     (case u_status b of None \<Rightarrow> [] | Some x \<Rightarrow> [''status'']) @
     (case u_priority b of None \<Rightarrow> [] | Some x \<Rightarrow> [''priority''])"

subsection \<open>The query of the list route\<close>

text \<open>
  \<^verbatim>\<open>z.coerce.number()\<close> applies JavaScript's \<^verbatim>\<open>Number\<close> to the text of the parameter. What
  the rest of the schema looks at in the result is whether it is \<^verbatim>\<open>NaN\<close>, an integer, or
  a number that is not an integer (a fraction or an infinity); \<open>JS_Integer i\<close> is the
  double whose value is the integer \<open>i\<close>.
\<close>

datatype js_number = JS_NaN | JS_NonInteger | JS_Integer int

text \<open>
  \<^verbatim>\<open>Number(text)\<close>, after the grammar of numeric string literals of ECMAScript: white space
  at both ends is dropped; what remains is empty (the number is 0), or a literal with
  prefix \<^verbatim>\<open>0x\<close>, \<^verbatim>\<open>0o\<close> or \<^verbatim>\<open>0b\<close>, or a decimal literal with an optional sign (\<^verbatim>\<open>Infinity\<close>, or
  digits with an optional fraction and an optional exponent), or else the number is
  \<^verbatim>\<open>NaN\<close>. The characters of the model are U+0000 to U+00FF, of which tab, line feed,
  vertical tab, form feed, carriage return, space and no-break space are white space.
\<close>

definition white_space :: "char \<Rightarrow> bool" where
  "white_space c =
     (c \<in> set [CHR 0x09, CHR 0x0A, CHR 0x0B, CHR 0x0C, CHR 0x0D, CHR 0x20, CHR 0xA0])"

definition trim :: "string \<Rightarrow> string" where
  "trim s = rev (dropWhile white_space (rev (dropWhile white_space s)))"

definition digits_in :: "string \<Rightarrow> string \<Rightarrow> bool" where
  "digits_in alphabet ds = (ds \<noteq> [] \<and> list_all (\<lambda>c. c \<in> set alphabet) ds)"

definition digits_value :: "int \<Rightarrow> string \<Rightarrow> int" where
  "digits_value base ds = foldl (\<lambda>n c. n * base + int (hexval c)) 0 ds"

text \<open>
  The mathematical value of a literal is kept exact, as a numerator that is not negative
  and a denominator that is 1 or a power of ten.
\<close>

datatype str_literal = Not_a_literal | Infinity_literal | Value_literal int int

definition non_decimal_literal :: "string \<Rightarrow> int option" where
  "non_decimal_literal s =
     (case s of
        z # p # ds \<Rightarrow>
          if z = CHR ''0'' \<and> p \<in> set ''xX'' \<and> digits_in ''0123456789abcdefABCDEF'' ds
            then Some (digits_value 16 ds)
          else if z = CHR ''0'' \<and> p \<in> set ''oO'' \<and> digits_in ''01234567'' ds
            then Some (digits_value 8 ds)
          else if z = CHR ''0'' \<and> p \<in> set ''bB'' \<and> digits_in ''01'' ds
            then Some (digits_value 2 ds)
          else None
      | _ \<Rightarrow> None)"

definition signed_integer :: "string \<Rightarrow> int option" where
  "signed_integer s =
     (case s of
        [] \<Rightarrow> None
      | c # r \<Rightarrow>
          if c = CHR ''+''
            then (if digits_in ''0123456789'' r then Some (digits_value 10 r) else None)
          else if c = CHR ''-''
            then (if digits_in ''0123456789'' r then Some (- digits_value 10 r) else None)
          else (if digits_in ''0123456789'' s then Some (digits_value 10 s) else None))"

definition exponent_part :: "string \<Rightarrow> int option" where
  "exponent_part s =
     (case s of
        [] \<Rightarrow> Some 0
      | c # r \<Rightarrow> if c \<in> set ''eE'' then signed_integer r else None)"

definition decimal_digit :: "char \<Rightarrow> bool" where
  "decimal_digit c = (c \<in> set ''0123456789'')"

definition unsigned_decimal_literal :: "string \<Rightarrow> str_literal" where
  "unsigned_decimal_literal s =
     (if s = ''Infinity'' then Infinity_literal
      else
        (let ip = takeWhile decimal_digit s;
             r1 = dropWhile decimal_digit s;
             dot = (case r1 of [] \<Rightarrow> False | c # r \<Rightarrow> c = CHR ''.'');
             fp = (if dot then takeWhile decimal_digit (tl r1) else []);
             r2 = (if dot then dropWhile decimal_digit (tl r1) else r1)
         in if ip = [] \<and> fp = [] then Not_a_literal
            else (case exponent_part r2 of
                    None \<Rightarrow> Not_a_literal
                  | Some x \<Rightarrow>
                      if int (length fp) \<le> x
                      then Value_literal (digits_value 10 (ip @ fp) * 10 ^ nat (x - int (length fp))) 1
                      else Value_literal (digits_value 10 (ip @ fp)) (10 ^ nat (int (length fp) - x)))))"

text \<open>The sign that was read (\<open>True\<close> for \<^verbatim>\<open>-\<close>) and the literal after it.\<close>

definition numeric_literal :: "string \<Rightarrow> bool \<times> str_literal" where
  "numeric_literal s =
     (case non_decimal_literal s of
        Some n \<Rightarrow> (False, Value_literal n 1)
      | None \<Rightarrow>
          (case s of
             [] \<Rightarrow> (False, Not_a_literal)
           | c # r \<Rightarrow>
               if c = CHR ''+'' then (False, unsigned_decimal_literal r)
               else if c = CHR ''-'' then (True, unsigned_decimal_literal r)
               else (False, unsigned_decimal_literal s)))"

text \<open>
  The value of the literal is rounded to the nearest double, a tie to the even
  significand: with \<open>2 ^ e\<close> the greatest power of two that is at most \<open>n / d\<close> and
  \<open>p = max (e - 52) (- 1074)\<close>, the double is the multiple of \<open>2 ^ p\<close> nearest to \<open>n / d\<close>,
  and an infinity from \<open>2 ^ 1024\<close> on. \<open>to_double n d\<close> says whether that double is an
  integer, and which.
\<close>

fun bit_length :: "nat \<Rightarrow> nat" where
  "bit_length n = (if n = 0 then 0 else Suc (bit_length (n div 2)))"

declare bit_length.simps [simp del]

definition floor_log2 :: "int \<Rightarrow> int \<Rightarrow> int" where
  "floor_log2 n d =
     (let e = int (bit_length (nat n)) - int (bit_length (nat d))
      in if (if 0 \<le> e then d * 2 ^ nat e \<le> n else d \<le> n * 2 ^ nat (- e)) then e else e - 1)"

definition round_half_even :: "int \<Rightarrow> int \<Rightarrow> int" where
  "round_half_even n d =
     (let q = n div d; r = n mod d
      in if 2 * r < d then q else if d < 2 * r then q + 1 else if even q then q else q + 1)"

definition to_double :: "int \<Rightarrow> int \<Rightarrow> js_number" where
  "to_double n d =
     (if n = 0 then JS_Integer 0
      else
        (let p = max (floor_log2 n d - 52) (- 1074)
         in if 0 \<le> p
            then (let s = round_half_even n (d * 2 ^ nat p)
                  in if 2 ^ 1024 \<le> s * 2 ^ nat p then JS_NonInteger
                     else JS_Integer (s * 2 ^ nat p))
            else (let s = round_half_even (n * 2 ^ nat (- p)) d
                  in if 2 ^ nat (- p) dvd s then JS_Integer (s div 2 ^ nat (- p))
                     else JS_NonInteger)))"

definition Number :: "string \<Rightarrow> js_number" where
  "Number text =
     (let s = trim text
      in if s = [] then JS_Integer 0
         else (case numeric_literal s of
                 (neg, Not_a_literal) \<Rightarrow> JS_NaN
               | (neg, Infinity_literal) \<Rightarrow> JS_NonInteger
               | (neg, Value_literal n d) \<Rightarrow>
                   (case to_double n d of
                      JS_Integer i \<Rightarrow> JS_Integer (if neg then - i else i)
                    | x \<Rightarrow> x)))"

text \<open>
  The four parameters that the schema reads, each absent or sent once, as the text that
  was sent (\<^verbatim>\<open>?offset=\<close> sends the empty text).
\<close>

record query =
  q_status :: "string option"
  q_priority :: "string option"
  q_limit :: "string option"
  q_offset :: "string option"

text \<open>
  \<^verbatim>\<open>.int().min(lo)\<close>, and \<^verbatim>\<open>.max(hi)\<close> where there is one, on the coerced number. \<^verbatim>\<open>.int()\<close>
  accepts the safe integers only, those from \<open>- (2 ^ 53 - 1)\<close> to \<open>2 ^ 53 - 1\<close>.
\<close>

definition MAX_SAFE_INTEGER :: int where
  "MAX_SAFE_INTEGER = 9007199254740991"

definition z_int_min_max :: "int \<Rightarrow> int option \<Rightarrow> js_number \<Rightarrow> int parsed" where
  "z_int_min_max lo hi n =
     (case n of
        JS_NaN \<Rightarrow> Invalid
      | JS_NonInteger \<Rightarrow> Invalid
      | JS_Integer i \<Rightarrow>
          if i < - MAX_SAFE_INTEGER then Invalid
          else if MAX_SAFE_INTEGER < i then Invalid
          else if i < lo then Invalid
          else (case hi of None \<Rightarrow> Valid i | Some h \<Rightarrow> if h < i then Invalid else Valid i))"

text \<open>
  \<^verbatim>\<open>z.coerce.number()\<close> under \<^verbatim>\<open>.optional().default(x)\<close>: an absent parameter is the number
  \<open>x\<close>, a text that was sent is the number that \<^verbatim>\<open>Number\<close> makes of it.
\<close>

definition coerce_default :: "(js_number \<Rightarrow> int parsed) \<Rightarrow> int \<Rightarrow> string option \<Rightarrow> int parsed" where
  "coerce_default schema x v = schema (case v of None \<Rightarrow> JS_Integer x | Some text \<Rightarrow> Number text)"

record list_input =
  l_status :: "task_status option"
  l_priority :: "task_priority option"
  l_limit :: int
  l_offset :: int

definition querySchema :: "query \<Rightarrow> issue list + list_input" where
  "querySchema q =
     (case (optional (z_enum status_labels) (map_option JString (q_status q)),
            optional (z_enum priority_labels) (map_option JString (q_priority q)),
            coerce_default (z_int_min_max 1 (Some 100)) 20 (q_limit q),
            coerce_default (z_int_min_max 0 None) 0 (q_offset q)) of
        (Valid s, Valid p, Valid l, Valid off) \<Rightarrow>
          Inr \<lparr>l_status = s, l_priority = p, l_limit = l, l_offset = off\<rparr>
      | (s, p, l, off) \<Rightarrow>
          Inl (refused ''status'' s @ refused ''priority'' p @
               refused ''limit'' l @ refused ''offset'' off))"

text \<open>
  \<^verbatim>\<open>zValidator(target, schema)\<close> with no hook: when the schema fails, the middleware itself
  answers with status 400 and the failed result as the body, and the handler does not run.
\<close>

definition zValidator :: "('i \<Rightarrow> issue list + 'v) \<Rightarrow> 'i \<Rightarrow> response + 'v" where
  "zValidator schema input =
     (case schema input of
        Inl issues \<Rightarrow> Inl (json (ZodErrorBody issues) 400)
      | Inr v \<Rightarrow> Inr v)"

section \<open>The statements that write\<close>

text \<open>
  What a request finds outside the table: the clock of the function instance
  (\<^verbatim>\<open>new Date()\<close>), the clock of the store (\<^verbatim>\<open>now()\<close>, the default of both timestamp columns)
  and the identifier the store draws (\<^verbatim>\<open>gen_random_uuid()\<close>, the default of \<^verbatim>\<open>id\<close>).
\<close>

record env =
  new_Date :: timestamp
  now :: timestamp
  gen_random_uuid :: uuid

text \<open>
  The store keeps no text that holds the character U+0000: a statement that has such a
  text as the value of \<^verbatim>\<open>title\<close> or \<^verbatim>\<open>description\<close> is refused (error 22021), whatever rows it
  addresses.
\<close>

definition text_ok :: "string \<Rightarrow> bool" where
  "text_ok s = list_all (\<lambda>c. c \<noteq> CHR 0x00) s"

definition invalid_text :: thrown where
  "invalid_text = OtherError ''invalid byte sequence for encoding UTF8: 0x00''"

text \<open>
  \<^verbatim>\<open>db.insert(tasks).values(body).returning()\<close>: a column that \<open>body\<close> leaves out takes its
  default, which is \<^verbatim>\<open>null\<close> for the description, \<^verbatim>\<open>gen_random_uuid()\<close> for the identifier and
  \<^verbatim>\<open>now()\<close> for both timestamps (\<^verbatim>\<open>$onUpdate\<close> plays no role in an insert when the column has
  a default), so both are the same instant of the same statement. The primary key refuses
  an identifier that a row already has. The statement inserts one row and returns that
  row, which is the \<^verbatim>\<open>task\<close> of \<^verbatim>\<open>const [task] = ...\<close>.
\<close>

definition new_row :: "env \<Rightarrow> create_input \<Rightarrow> task" where
  "new_row e v =
     \<lparr>task_id = gen_random_uuid e,
      title = c_title v,
      description = (case c_description v of None \<Rightarrow> None | Some x \<Rightarrow> x),
      status = c_status v,
      priority = c_priority v,
      createdAt = now e,
      updatedAt = now e\<rparr>"

definition insert_task :: "db \<Rightarrow> env \<Rightarrow> create_input \<Rightarrow> (thrown + task) \<times> db" where
  "insert_task d e v =
     (if text_ok (c_title v) \<and>
         (case c_description v of None \<Rightarrow> True | Some None \<Rightarrow> True | Some (Some x) \<Rightarrow> text_ok x)
      then
        (if gen_random_uuid e \<in> set (map task_id (tasks d))
         then (Inl (OtherError ''duplicate key value violates unique constraint''), round_trip d)
         else (Inr (new_row e v), round_trip (d\<lparr>tasks := tasks d @ [new_row e v]\<rparr>)))
      else (Inl invalid_text, round_trip d))"

text \<open>
  \<^verbatim>\<open>.set({...body, updatedAt: new Date()})\<close>: the keys of \<open>body\<close> that are present and
  \<^verbatim>\<open>updatedAt\<close> are assigned, every other column keeps its value.
\<close>

definition set_columns :: "update_input \<Rightarrow> timestamp \<Rightarrow> task \<Rightarrow> task" where
  "set_columns b date t =
     t\<lparr>title := (case u_title b of None \<Rightarrow> title t | Some x \<Rightarrow> x),
       description := (case u_description b of None \<Rightarrow> description t | Some x \<Rightarrow> x),
       status := (case u_status b of None \<Rightarrow> status t | Some x \<Rightarrow> x),
       priority := (case u_priority b of None \<Rightarrow> priority t | Some x \<Rightarrow> x),
       updatedAt := date\<rparr>"

text \<open>\<^verbatim>\<open>db.update(tasks).set(...).where(eq(tasks.id, id)).returning()\<close>\<close>

definition update_by_id :: "db \<Rightarrow> string \<Rightarrow> update_input \<Rightarrow> timestamp \<Rightarrow> (thrown + task list) \<times> db" where
  "update_by_id d ident b date =
     (if (case u_title b of None \<Rightarrow> True | Some x \<Rightarrow> text_ok x) \<and>
         (case u_description b of None \<Rightarrow> True | Some None \<Rightarrow> True | Some (Some x) \<Rightarrow> text_ok x)
      then
        (case uuid_in ident of
           None \<Rightarrow> (Inl invalid_uuid, round_trip d)
         | Some u \<Rightarrow>
             (Inr (map (set_columns b date) (filter (\<lambda>t. task_id t = u) (tasks d))),
              round_trip (d\<lparr>tasks := map (\<lambda>t. if task_id t = u then set_columns b date t else t) (tasks d)\<rparr>)))
      else (Inl invalid_text, round_trip d))"

section \<open>The route handlers (src/routes/tasks.routes.ts)\<close>

text \<open>
  A handler returns a response or throws, and leaves a store behind. \<^verbatim>\<open>const [task] = ...\<close>
  takes the first row of the result; \<^verbatim>\<open>!task\<close> holds when there is none.
\<close>

text \<open>
  GET /: \<^verbatim>\<open>if (status)\<close> and \<^verbatim>\<open>if (priority)\<close> hold exactly when the filter is present, since
  the labels of both enums are non-empty strings.
\<close>

definition listTasks_handler :: "db \<Rightarrow> list_input \<Rightarrow> (thrown + response) \<times> db" where
  "listTasks_handler d v =
     (let conditions =
            (case l_status v of None \<Rightarrow> [] | Some s \<Rightarrow> [Eq_status s]) @
            (case l_priority v of None \<Rightarrow> [] | Some p \<Rightarrow> [Eq_priority p]);
          wh = (if length conditions > 0
                then Some (if length conditions = 1 then conditions ! 0 else And conditions)
                else None)
      in (case select_tasks d wh (l_limit v) (l_offset v) of
            (Inl err, d') \<Rightarrow> (Inl err, d')
          | (Inr result, d') \<Rightarrow>
              (Inr (json (ListBody result (l_limit v) (l_offset v) (length result)) 200), d')))"

text \<open>GET /:id\<close>

definition getTask_handler :: "db \<Rightarrow> string \<Rightarrow> (thrown + response) \<times> db" where
  "getTask_handler d ident =
     (if \<not> regex_test uuidRegex ident
      then (Inl (ApiError 400 ''Invalid task ID format'' ''INVALID_ID''), d)
      else (case select_by_id d ident of
              (Inl err, d') \<Rightarrow> (Inl err, d')
            | (Inr [], d') \<Rightarrow> (Inl (ApiError 404 ''Task not found'' ''TASK_NOT_FOUND''), d')
            | (Inr (t # rest), d') \<Rightarrow> (Inr (json (TaskBody t) 200), d')))"

text \<open>POST /\<close>

definition createTask_handler :: "db \<Rightarrow> env \<Rightarrow> create_input \<Rightarrow> (thrown + response) \<times> db" where
  "createTask_handler d e b =
     (case insert_task d e b of
        (Inl err, d') \<Rightarrow> (Inl err, d')
      | (Inr t, d') \<Rightarrow> (Inr (json (TaskBody t) 201), d'))"

text \<open>PUT /:id\<close>

definition updateTask_handler :: "db \<Rightarrow> env \<Rightarrow> string \<Rightarrow> update_input \<Rightarrow> (thrown + response) \<times> db" where
  "updateTask_handler d e ident b =
     (if length (Object_keys b) = 0
      then (Inl (ApiError 400 ''No fields to update'' ''EMPTY_UPDATE''), d)
      else (case update_by_id d ident b (new_Date e) of
              (Inl err, d') \<Rightarrow> (Inl err, d')
            | (Inr [], d') \<Rightarrow> (Inl (ApiError 404 ''Task not found'' ''TASK_NOT_FOUND''), d')
            | (Inr (t # rest), d') \<Rightarrow> (Inr (json (TaskBody t) 200), d')))"

text \<open>DELETE /:id\<close>

definition deleteTask_handler :: "db \<Rightarrow> string \<Rightarrow> (thrown + response) \<times> db" where
  "deleteTask_handler d ident =
     (case delete_by_id d ident of
        (Inl err, d') \<Rightarrow> (Inl err, d')
      | (Inr [], d') \<Rightarrow> (Inl (ApiError 404 ''Task not found'' ''TASK_NOT_FOUND''), d')
      | (Inr (t # rest), d') \<Rightarrow> (Inr (json (TaskBody t) 200), d'))"

section \<open>The routes and the application\<close>

text \<open>
  What happened to a request: the validator answered it (\<open>Inl\<close>), or the handler ran and
  threw or returned (\<open>Inr\<close>).
\<close>

type_synonym outcome = "response + (thrown + response)"

definition validated :: "('i \<Rightarrow> issue list + 'v) \<Rightarrow> 'i \<Rightarrow> db \<Rightarrow> ('v \<Rightarrow> (thrown + response) \<times> db) \<Rightarrow> outcome \<times> db" where
  "validated schema input d handler =
     (case zValidator schema input of
        Inl resp \<Rightarrow> (Inl resp, d)
      | Inr v \<Rightarrow> (case handler v of (r, d') \<Rightarrow> (Inr r, d')))"

definition unvalidated :: "(thrown + response) \<times> db \<Rightarrow> outcome \<times> db" where
  "unvalidated h = (case h of (r, d') \<Rightarrow> (Inr r, d'))"

text \<open>The five routes of \<open>tasksRoutes\<close>: the validator where there is one, then the handler.\<close>

definition listTasks_route :: "db \<Rightarrow> query \<Rightarrow> outcome \<times> db" where
  "listTasks_route d q = validated querySchema q d (listTasks_handler d)"

definition getTask_route :: "db \<Rightarrow> string \<Rightarrow> outcome \<times> db" where
  "getTask_route d ident = unvalidated (getTask_handler d ident)"

definition createTask_route :: "db \<Rightarrow> env \<Rightarrow> json_value \<Rightarrow> outcome \<times> db" where
  "createTask_route d e b = validated createTaskSchema b d (createTask_handler d e)"

definition updateTask_route :: "db \<Rightarrow> env \<Rightarrow> string \<Rightarrow> json_value \<Rightarrow> outcome \<times> db" where
  "updateTask_route d e ident b = validated updateTaskSchema b d (updateTask_handler d e ident)"

definition deleteTask_route :: "db \<Rightarrow> string \<Rightarrow> outcome \<times> db" where
  "deleteTask_route d ident = unvalidated (deleteTask_handler d ident)"

text \<open>
  The response that is sent: the validator's own, the handler's, or the one that
  \<open>errorHandler\<close> makes of what the handler threw.
\<close>

definition respond :: "outcome \<times> db \<Rightarrow> response \<times> db" where
  "respond r =
     (case r of
        (Inl resp, d') \<Rightarrow> (resp, d')
      | (Inr h, d') \<Rightarrow> (onError h, d'))"

text \<open>The five operations, by the names the specification gives them.\<close>

definition ListTasks :: "db \<Rightarrow> query \<Rightarrow> response \<times> db" where
  "ListTasks d q = respond (listTasks_route d q)"

definition GetTask :: "db \<Rightarrow> string \<Rightarrow> response \<times> db" where
  "GetTask d ident = respond (getTask_route d ident)"

definition CreateTask :: "db \<Rightarrow> env \<Rightarrow> json_value \<Rightarrow> response \<times> db" where
  "CreateTask d e b = respond (createTask_route d e b)"

definition UpdateTask :: "db \<Rightarrow> env \<Rightarrow> string \<Rightarrow> json_value \<Rightarrow> response \<times> db" where
  "UpdateTask d e ident b = respond (updateTask_route d e ident b)"

definition DeleteTask :: "db \<Rightarrow> string \<Rightarrow> response \<times> db" where
  "DeleteTask d ident = respond (deleteTask_route d ident)"

text \<open>A request to one of the five routes, and the application on it.\<close>

datatype request =
  GET_tasks query
| GET_task string
| POST_tasks json_value
| PUT_task string json_value
| DELETE_task string

fun route :: "db \<Rightarrow> env \<Rightarrow> request \<Rightarrow> outcome \<times> db" where
  "route d e (GET_tasks q) = listTasks_route d q"
| "route d e (GET_task ident) = getTask_route d ident"
| "route d e (POST_tasks b) = createTask_route d e b"
| "route d e (PUT_task ident b) = updateTask_route d e ident b"
| "route d e (DELETE_task ident) = deleteTask_route d ident"

definition app :: "db \<Rightarrow> env \<Rightarrow> request \<Rightarrow> response \<times> db" where
  "app d e req = respond (route d e req)"

section \<open>Definitions that follow the words of the specification\<close>

text \<open>
  The canonical layout of a version-4 identifier, as the specification describes it:
  36 characters in groups of 8, 4, 4, 4 and 12 hexadecimal digits with a hyphen between
  two groups, the first digit of the third group \<^verbatim>\<open>4\<close>, the first digit of the fourth
  group one of \<^verbatim>\<open>8\<close>, \<^verbatim>\<open>9\<close>, \<^verbatim>\<open>a\<close>, \<^verbatim>\<open>b\<close> (in either case).
\<close>

definition uuid_v4_layout :: "string \<Rightarrow> bool" where
  "uuid_v4_layout s =
     (length s = 36 \<and>
      list_all hex_class (take 8 s) \<and> s ! 8 = CHR ''-'' \<and>
      list_all hex_class (take 4 (drop 9 s)) \<and> s ! 13 = CHR ''-'' \<and>
      s ! 14 = CHR ''4'' \<and> list_all hex_class (take 3 (drop 15 s)) \<and> s ! 18 = CHR ''-'' \<and>
      s ! 19 \<in> set ''89abAB'' \<and> list_all hex_class (take 3 (drop 20 s)) \<and> s ! 23 = CHR ''-'' \<and>
      list_all hex_class (take 12 (drop 24 s)))"

text \<open>The keys of a body that the schemas recognise.\<close>

definition recognized_keys :: "string list" where
  "recognized_keys = [''title'', ''description'', ''status'', ''priority'']"

text \<open>
  A task satisfies the filters of a list request when it matches every filter that is
  present; \<open>listed\<close> is the page of such tasks that the request asks for.
\<close>

definition satisfies_filters :: "task_status option \<Rightarrow> task_priority option \<Rightarrow> task \<Rightarrow> bool" where
  "satisfies_filters s p t =
     ((case s of None \<Rightarrow> True | Some x \<Rightarrow> status t = x) \<and>
      (case p of None \<Rightarrow> True | Some y \<Rightarrow> priority t = y))"

definition listed :: "list_input \<Rightarrow> task list \<Rightarrow> task list" where
  "listed v rows =
     take (nat (l_limit v)) (drop (nat (l_offset v))
       (filter (satisfies_filters (l_status v) (l_priority v)) rows))"

text \<open>
  The bounds of pagination, on the text of a parameter: a limit is absent or a text that
  \<^verbatim>\<open>Number\<close> reads as an integer from 1 to 100, an offset is absent or a text that it
  reads as an integer from 0 to \<open>2 ^ 53 - 1\<close>; a filter is absent or one of its labels.
\<close>

definition limit_ok :: "string option \<Rightarrow> bool" where
  "limit_ok v =
     (case v of
        None \<Rightarrow> True
      | Some text \<Rightarrow> (case Number text of JS_Integer i \<Rightarrow> 1 \<le> i \<and> i \<le> 100 | _ \<Rightarrow> False))"

definition offset_ok :: "string option \<Rightarrow> bool" where
  "offset_ok v =
     (case v of
        None \<Rightarrow> True
      | Some text \<Rightarrow> (case Number text of JS_Integer i \<Rightarrow> 0 \<le> i \<and> i \<le> MAX_SAFE_INTEGER | _ \<Rightarrow> False))"

definition label_ok :: "(string \<times> 'a) list \<Rightarrow> string option \<Rightarrow> bool" where
  "label_ok labels v =
     (case v of
        None \<Rightarrow> True
      | Some text \<Rightarrow> (case map_of labels text of None \<Rightarrow> False | Some x \<Rightarrow> True))"

text \<open>
  The error envelope \<^verbatim>\<open>{success: false, error: {message, code}}\<close>, the success envelope,
  and the codes that the application gives.
\<close>

definition error_envelope :: "resp_body \<Rightarrow> bool" where
  "error_envelope b = (case b of ErrorBody message code \<Rightarrow> True | _ \<Rightarrow> False)"

definition success_envelope :: "resp_body \<Rightarrow> bool" where
  "success_envelope b = (case b of TaskBody t \<Rightarrow> True | ListBody ts l off n \<Rightarrow> True | _ \<Rightarrow> False)"

definition error_codes :: "string list" where
  "error_codes = [''INVALID_ID'', ''EMPTY_UPDATE'', ''TASK_NOT_FOUND'', ''INTERNAL_ERROR'']"

text \<open>
  The title trimmed, as the specification asks of it, is \<open>trim\<close> of the title: the string
  without the white space at its two ends.
\<close>

section \<open>Example data\<close>

text \<open>The identifier \<^verbatim>\<open>550e8400-e29b-41d4-a716-446655440000\<close> of the tutorial, and a task that has it.\<close>

definition example_id :: uuid where
  "example_id = [85, 14, 132, 0, 226, 155, 65, 212, 167, 22, 68, 102, 85, 68, 0, 0]"

definition example_task :: task where
  "example_task =
     \<lparr>task_id = example_id, title = ''Buy milk'', description = None, status = Todo,
      priority = Medium, createdAt = 1000, updatedAt = 1000\<rparr>"

definition example_env :: env where
  "example_env = \<lparr>new_Date = 1000, now = 2000, gen_random_uuid = example_id\<rparr>"

definition task_todo_low :: task where
  "task_todo_low =
     \<lparr>task_id = [0, 0, 0, 0, 0, 0, 64, 0, 128, 0, 0, 0, 0, 0, 0, 1], title = ''Water plants'',
      description = None, status = Todo, priority = Low, createdAt = 1000, updatedAt = 1000\<rparr>"

definition task_todo_high :: task where
  "task_todo_high =
     \<lparr>task_id = [0, 0, 0, 0, 0, 0, 64, 0, 128, 0, 0, 0, 0, 0, 0, 2], title = ''Pay rent'',
      description = Some ''before Friday'', status = Todo, priority = High,
      createdAt = 1100, updatedAt = 1100\<rparr>"

definition task_done_high :: task where
  "task_done_high =
     \<lparr>task_id = [0, 0, 0, 0, 0, 0, 64, 0, 128, 0, 0, 0, 0, 0, 0, 3], title = ''File taxes'',
      description = None, status = Done, priority = High, createdAt = 1200, updatedAt = 1300\<rparr>"

section \<open>Identifiers: the pattern, the layout and the column type\<close>

lemma uuid_bytes_numeral:
  "uuid_bytes (numeral k) (a # b # src) =
     (if hex_class a \<and> hex_class b
      then (case uuid_bytes (pred_numeral k)
                   (case src of
                      [] \<Rightarrow> src
                    | c # r \<Rightarrow> if c = CHR ''-'' \<and> (15 - pred_numeral k) mod 2 = 1 \<and> 15 - pred_numeral k < 15 then r else src) of
              None \<Rightarrow> None
            | Some (bs, rest) \<Rightarrow> Some ((hexval a * 16 + hexval b) # bs, rest))
      else None)"
  by (simp add: numeral_eq_Suc)

lemma hex_not_dash: "hex_class c \<Longrightarrow> (c = CHR ''-'') = False"
  by (auto simp: hex_class_def)

lemma hex_not_brace: "hex_class c \<Longrightarrow> (c = CHR ''{'') = False"
  by (auto simp: hex_class_def)

lemma version_hex: "version_class c \<Longrightarrow> hex_class c"
  by (auto simp: hex_class_def version_class_def)

lemma variant_hex: "variant_class c \<Longrightarrow> hex_class c"
  by (auto simp: hex_class_def variant_class_def)

text \<open>The store reads a text in the canonical layout as the sixteen bytes it spells.\<close>

lemma uuid_in_canonical:
  assumes "hex_class a0" "hex_class a1" "hex_class a2" "hex_class a3"
    "hex_class a4" "hex_class a5" "hex_class a6" "hex_class a7"
    "hex_class b0" "hex_class b1" "hex_class b2" "hex_class b3"
    "hex_class c0" "hex_class c1" "hex_class c2" "hex_class c3"
    "hex_class d0" "hex_class d1" "hex_class d2" "hex_class d3"
    "hex_class e0" "hex_class e1" "hex_class e2" "hex_class e3"
    "hex_class e4" "hex_class e5" "hex_class e6" "hex_class e7"
    "hex_class e8" "hex_class e9" "hex_class e10" "hex_class e11"
  shows "uuid_in [a0, a1, a2, a3, a4, a5, a6, a7, CHR ''-'', b0, b1, b2, b3, CHR ''-'',
                  c0, c1, c2, c3, CHR ''-'', d0, d1, d2, d3, CHR ''-'',
                  e0, e1, e2, e3, e4, e5, e6, e7, e8, e9, e10, e11] =
         Some [hexval a0 * 16 + hexval a1, hexval a2 * 16 + hexval a3,
               hexval a4 * 16 + hexval a5, hexval a6 * 16 + hexval a7,
               hexval b0 * 16 + hexval b1, hexval b2 * 16 + hexval b3,
               hexval c0 * 16 + hexval c1, hexval c2 * 16 + hexval c3,
               hexval d0 * 16 + hexval d1, hexval d2 * 16 + hexval d3,
               hexval e0 * 16 + hexval e1, hexval e2 * 16 + hexval e3,
               hexval e4 * 16 + hexval e5, hexval e6 * 16 + hexval e7,
               hexval e8 * 16 + hexval e9, hexval e10 * 16 + hexval e11]"
  using assms
  by (simp add: uuid_in_def uuid_bytes_numeral hex_not_dash hex_not_brace)

lemma regex_uuid_in: "regex_test uuidRegex s \<Longrightarrow> \<exists>u. uuid_in s = Some u"
  apply (clarsimp simp: regex_test_def uuidRegex_def numeral_eq_Suc list_all2_Cons1 dash_class_def)
  apply (simp add: uuid_in_canonical version_hex variant_hex)
  done

lemma regex_layout: "regex_test uuidRegex s \<Longrightarrow> uuid_v4_layout s"
  apply (clarsimp simp: regex_test_def uuidRegex_def numeral_eq_Suc list_all2_Cons1 dash_class_def)
  apply (simp add: uuid_v4_layout_def version_class_def variant_class_def)
  done

lemma length_36:
  "length s = 36 \<Longrightarrow>
   \<exists>x0 x1 x2 x3 x4 x5 x6 x7 x8 x9 x10 x11 x12 x13 x14 x15 x16 x17 x18 x19 x20 x21 x22 x23
      x24 x25 x26 x27 x28 x29 x30 x31 x32 x33 x34 x35.
     s = [x0, x1, x2, x3, x4, x5, x6, x7, x8, x9, x10, x11, x12, x13, x14, x15, x16, x17,
          x18, x19, x20, x21, x22, x23, x24, x25, x26, x27, x28, x29, x30, x31, x32, x33,
          x34, x35]"
  by (auto simp: numeral_eq_Suc length_Suc_conv)

lemma layout_regex: "uuid_v4_layout s \<Longrightarrow> regex_test uuidRegex s"
  unfolding uuid_v4_layout_def
  apply (elim conjE)
  apply (drule length_36)
  apply (elim exE)
  apply (simp add: regex_test_def uuidRegex_def dash_class_def version_class_def variant_class_def)
  apply (simp add: numeral_eq_Suc dash_class_def version_class_def variant_class_def)
  done

text \<open>The pattern of the handler accepts exactly the canonical layout.\<close>

lemma regex_eq_layout: "regex_test uuidRegex s = uuid_v4_layout s"
  using regex_layout layout_regex by blast

lemma uuid_in_example: "uuid_in ''550e8400-e29b-41d4-a716-446655440000'' = Some example_id"
  by code_simp

lemma uuid_in_example_bare: "uuid_in ''550e8400e29b41d4a716446655440000'' = Some example_id"
  by code_simp

lemma uuid_in_not_a_uuid: "uuid_in ''not-a-uuid'' = None"
  by code_simp

lemma layout_example: "uuid_v4_layout ''550e8400-e29b-41d4-a716-446655440000''"
  by code_simp

lemma layout_not_a_uuid: "\<not> uuid_v4_layout ''not-a-uuid''"
  by code_simp

lemma layout_bare: "\<not> uuid_v4_layout ''550e8400e29b41d4a716446655440000''"
  by code_simp

lemma filter_none: "list_all (\<lambda>t. \<not> P t) xs \<Longrightarrow> filter P xs = []"
  by (induction xs) auto

section \<open>Numbers of parameter texts\<close>

lemma Number_blank: "Number [] = JS_Integer 0"
  by (simp add: Number_def trim_def)

lemma Number_literal:
  assumes "trim text = s" and "s \<noteq> []"
    and "numeric_literal s = (False, Value_literal n d)"
    and "to_double n d = JS_Integer i"
  shows "Number text = JS_Integer i"
  using assms by (simp add: Number_def)

lemmas literal_eval = numeric_literal_def non_decimal_literal_def unsigned_decimal_literal_def
  decimal_digit_def exponent_part_def signed_integer_def digits_value_def digits_in_def
  hexval_def Let_def

lemmas double_eval = to_double_def floor_log2_def round_half_even_def bit_length.simps Let_def

lemma Number_5: "Number ''5'' = JS_Integer 5"
proof (rule Number_literal)
  show "trim ''5'' = ''5''" by (simp add: trim_def white_space_def)
  show "''5'' \<noteq> []" by simp
  show "numeric_literal ''5'' = (False, Value_literal 5 1)" by (simp add: literal_eval)
  show "to_double 5 1 = JS_Integer 5" by (simp add: double_eval)
qed

lemma Number_10: "Number ''10'' = JS_Integer 10"
proof (rule Number_literal)
  show "trim ''10'' = ''10''" by (simp add: trim_def white_space_def)
  show "''10'' \<noteq> []" by simp
  show "numeric_literal ''10'' = (False, Value_literal 10 1)" by (simp add: literal_eval)
  show "to_double 10 1 = JS_Integer 10" by (simp add: double_eval)
qed

lemma Number_101: "Number ''101'' = JS_Integer 101"
proof (rule Number_literal)
  show "trim ''101'' = ''101''" by (simp add: trim_def white_space_def)
  show "''101'' \<noteq> []" by simp
  show "numeric_literal ''101'' = (False, Value_literal 101 1)" by (simp add: literal_eval)
  show "to_double 101 1 = JS_Integer 101" by (simp add: double_eval)
qed

text \<open>
  \<open>2 ^ 53\<close> is an integer and a double, and no safe integer; \<^verbatim>\<open>1.5\<close> is no integer and
  \<^verbatim>\<open>abc\<close> no number.
\<close>

lemma Number_2_53: "Number ''9007199254740992'' = JS_Integer 9007199254740992"
proof (rule Number_literal)
  show "trim ''9007199254740992'' = ''9007199254740992''" by (simp add: trim_def white_space_def)
  show "''9007199254740992'' \<noteq> []" by simp
  show "numeric_literal ''9007199254740992'' = (False, Value_literal 9007199254740992 1)"
    by (simp add: literal_eval)
  show "to_double 9007199254740992 1 = JS_Integer 9007199254740992" by (simp add: double_eval)
qed

lemma Number_1_5: "Number ''1.5'' = JS_NonInteger"
proof -
  have "trim ''1.5'' = ''1.5''" by (simp add: trim_def white_space_def)
  moreover have "numeric_literal ''1.5'' = (False, Value_literal 15 10)" by (simp add: literal_eval)
  moreover have "to_double 15 10 = JS_NonInteger" by (simp add: double_eval)
  ultimately show ?thesis by (simp add: Number_def)
qed

lemma Number_abc: "Number ''abc'' = JS_NaN"
proof -
  have "trim ''abc'' = ''abc''" by (simp add: trim_def white_space_def)
  moreover have "numeric_literal ''abc'' = (False, Not_a_literal)" by (simp add: literal_eval)
  ultimately show ?thesis by (simp add: Number_def)
qed

section \<open>Bodies and schemas\<close>

lemma map_of_filter_key:
  "P k \<Longrightarrow> map_of (filter (\<lambda>(k', v). P k') xs) k = map_of xs k"
  by (induction xs) auto

lemma lookup_key_filter:
  "P k \<Longrightarrow> lookup_key (filter (\<lambda>(k', v). P k') members) k = lookup_key members k"
  by (simp add: lookup_key_def rev_filter map_of_filter_key)

lemma lookup_key_absent:
  "list_all (\<lambda>(k', v). \<not> P k') members \<Longrightarrow> P k \<Longrightarrow> lookup_key members k = None"
  by (auto simp: lookup_key_def map_of_eq_None_iff list_all_iff)

lemma createTaskSchema_filter:
  "createTaskSchema (JObject (filter (\<lambda>(k, v). k \<in> set recognized_keys) members)) =
   createTaskSchema (JObject members)"
  by (simp add: createTaskSchema_def lookup_key_filter recognized_keys_def)

lemma updateTaskSchema_filter:
  "updateTaskSchema (JObject (filter (\<lambda>(k, v). k \<in> set recognized_keys) members)) =
   updateTaskSchema (JObject members)"
  by (simp add: updateTaskSchema_def lookup_key_filter recognized_keys_def)

lemma updateTaskSchema_no_keys:
  assumes "list_all (\<lambda>(k, v). k \<notin> set recognized_keys) members"
  shows "updateTaskSchema (JObject members) =
           Inr \<lparr>u_title = None, u_description = None, u_status = None, u_priority = None\<rparr>"
proof -
  have "lookup_key members k = None" if "k \<in> set recognized_keys" for k
    using lookup_key_absent [of "\<lambda>k. k \<in> set recognized_keys" members k] assms that by simp
  then show ?thesis
    by (simp add: updateTaskSchema_def recognized_keys_def optional_def)
qed

lemma updateTaskSchema_status_only:
  assumes "lookup_key members ''status'' = Some (JString label)"
    and "map_of status_labels label = Some s"
    and "lookup_key members ''title'' = None"
    and "lookup_key members ''description'' = None"
    and "lookup_key members ''priority'' = None"
  shows "updateTaskSchema (JObject members) =
           Inr \<lparr>u_title = None, u_description = None, u_status = Some s, u_priority = None\<rparr>"
  using assms by (simp add: updateTaskSchema_def optional_def z_enum_def)

section \<open>The list handler\<close>

text \<open>The condition that the handler composes holds of the tasks that satisfy the filters.\<close>

lemma holds_conditions:
  "(let conditions =
            (case s of None \<Rightarrow> [] | Some x \<Rightarrow> [Eq_status x]) @
            (case p of None \<Rightarrow> [] | Some y \<Rightarrow> [Eq_priority y])
    in (case (if length conditions > 0
                then Some (if length conditions = 1 then conditions ! 0 else And conditions)
                else None) of None \<Rightarrow> rows | Some c \<Rightarrow> filter (holds c) rows))
   = filter (satisfies_filters s p) rows"
  by (cases s; cases p) (auto simp: satisfies_filters_def intro!: filter_cong)

lemma listTasks_handler_eq:
  "listTasks_handler d v =
     (Inr (json (ListBody (listed v (tasks d)) (l_limit v) (l_offset v) (length (listed v (tasks d)))) 200),
      round_trip d)"
  using holds_conditions [of "l_status v" "l_priority v" "tasks d"]
  by (simp add: listTasks_handler_def select_tasks_def Let_def listed_def)

section \<open>Rows and identifiers\<close>

lemma filter_distinct_key:
  "distinct (map f xs) \<Longrightarrow> x \<in> set xs \<Longrightarrow> filter (\<lambda>y. f y = f x) xs = [x]"
proof (induction xs)
  case Nil
  then show ?case by simp
next
  case (Cons a xs)
  show ?case
  proof (cases "a = x")
    case True
    with Cons.prems have "\<forall>y\<in>set xs. f y \<noteq> f x" by (auto simp: image_iff)
    then have "filter (\<lambda>y. f y = f x) xs = []" by (simp add: filter_empty_conv)
    with True show ?thesis by simp
  next
    case False
    with Cons.prems have "x \<in> set xs" and "f a \<noteq> f x" by (auto simp: image_iff)
    with Cons show ?thesis by simp
  qed
qed

section \<open>What the store and the schema refuse\<close>

text \<open>
  A title that holds U+0000 passes the schema and is refused by the store: the error
  handler answers 500 and no row is stored.
\<close>

lemma nul_title_is_refused:
  "CreateTask \<lparr>tasks = [], sent = 0\<rparr> example_env (JObject [(''title'', JString [CHR 0x00])]) =
     (json (ErrorBody ''Internal Server Error'' ''INTERNAL_ERROR'') 500, \<lparr>tasks = [], sent = 1\<rparr>)"
  by (simp add: CreateTask_def createTask_route_def validated_def zValidator_def
      createTaskSchema_def lookup_key_def z_string_min_max_def optional_def nullable_def
      optional_default_def z_enum_def status_labels_def priority_labels_def
      createTask_handler_def insert_task_def text_ok_def invalid_text_def respond_def onError_def
      round_trip_def)

text \<open>An offset of \<open>2 ^ 53\<close> is an integer that is not safe, and the schema refuses it.\<close>

lemma unsafe_offset_is_refused:
  "ListTasks \<lparr>tasks = [task_todo_low], sent = 0\<rparr>
     \<lparr>q_status = None, q_priority = None, q_limit = None, q_offset = Some ''9007199254740992''\<rparr> =
   (json (ZodErrorBody [''offset'']) 400, \<lparr>tasks = [task_todo_low], sent = 0\<rparr>)"
  by (simp add: ListTasks_def listTasks_route_def validated_def zValidator_def querySchema_def
      optional_def coerce_default_def Number_2_53 z_int_min_max_def MAX_SAFE_INTEGER_def
      refused_def respond_def)

section \<open>Error responses\<close>

text \<open>
  The claim C1 as it is written (every failing request is answered with the envelope
  \<^verbatim>\<open>{success: false, error: {message, code}}\<close> made by the error handler, a request that a
  schema rejects among them) fails: a body without a title is answered by the validator
  middleware, with status 400 and the failed parse result, which is not the envelope.
\<close>

theorem validator_body_counterexample:
  "CreateTask \<lparr>tasks = [], sent = 0\<rparr> example_env (JObject []) =
     (json (ZodErrorBody [''title'']) 400, \<lparr>tasks = [], sent = 0\<rparr>) \<and>
   \<not> error_envelope (body (fst (CreateTask \<lparr>tasks = [], sent = 0\<rparr> example_env (JObject []))))"
  by (simp add: CreateTask_def createTask_route_def validated_def zValidator_def
      createTaskSchema_def lookup_key_def z_string_min_max_def optional_def nullable_def
      optional_default_def z_enum_def status_labels_def priority_labels_def refused_def
      respond_def json_def error_envelope_def)

text \<open>
  C1, as amended. For every request to the task routes: when the handler throws (an
  invalid id, an empty update, a task that is not found, a statement that the store
  refuses), the response is the one the error handler makes of the error, and its body
  is the envelope \<^verbatim>\<open>{success: false, error: {message, code}}\<close> with one of the codes of the
  application; when a schema rejects the body or the query, the validator middleware
  answers with status 400 and the failed parse result, which is not that envelope, and
  nothing is sent to the store; otherwise the response is the handler's success envelope.
\<close>

theorem thrown_errors_are_translated:
  "(case fst (route d e req) of
      Inl resp \<Rightarrow>
        app d e req = (resp, d) \<and> statusCode resp = 400 \<and>
        (\<exists>issues. body resp = ZodErrorBody issues) \<and> \<not> error_envelope (body resp)
    | Inr (Inl err) \<Rightarrow>
        fst (app d e req) = errorHandler err \<and>
        (\<exists>message code. body (errorHandler err) = ErrorBody message code \<and> code \<in> set error_codes)
    | Inr (Inr resp) \<Rightarrow>
        fst (app d e req) = resp \<and> success_envelope (body resp))"
proof (cases req)
  case (GET_tasks q)
  then show ?thesis
    by (auto simp: app_def respond_def listTasks_route_def validated_def zValidator_def json_def
        error_envelope_def success_envelope_def listTasks_handler_eq onError_def
        split: sum.splits prod.splits)
next
  case (GET_task ident)
  then show ?thesis
    by (auto simp: app_def respond_def getTask_route_def unvalidated_def json_def
        error_envelope_def success_envelope_def getTask_handler_def select_by_id_def onError_def
        error_codes_def invalid_uuid_def
        split: sum.splits prod.splits option.splits list.splits if_splits)
next
  case (POST_tasks b)
  then show ?thesis
    by (auto simp: app_def respond_def createTask_route_def validated_def zValidator_def json_def
        error_envelope_def success_envelope_def createTask_handler_def insert_task_def onError_def
        error_codes_def invalid_text_def
        split: sum.splits prod.splits if_splits)
next
  case (PUT_task ident b)
  then show ?thesis
    by (auto simp: app_def respond_def updateTask_route_def validated_def zValidator_def json_def
        error_envelope_def success_envelope_def updateTask_handler_def update_by_id_def onError_def
        error_codes_def invalid_uuid_def invalid_text_def
        split: sum.splits prod.splits option.splits list.splits if_splits)
next
  case (DELETE_task ident)
  then show ?thesis
    by (auto simp: app_def respond_def deleteTask_route_def unvalidated_def json_def
        error_envelope_def success_envelope_def deleteTask_handler_def delete_by_id_def onError_def
        error_codes_def invalid_uuid_def
        split: sum.splits prod.splits option.splits list.splits if_splits)
qed

theorem thrown_errors_are_translated_witness:
  "fst (route \<lparr>tasks = [], sent = 0\<rparr> example_env (DELETE_task ''not-a-uuid'')) = Inr (Inl invalid_uuid) \<and>
   fst (app \<lparr>tasks = [], sent = 0\<rparr> example_env (DELETE_task ''not-a-uuid'')) =
     json (ErrorBody ''Internal Server Error'' ''INTERNAL_ERROR'') 500"
proof -
  have r: "fst (route \<lparr>tasks = [], sent = 0\<rparr> example_env (DELETE_task ''not-a-uuid'')) = Inr (Inl invalid_uuid)"
    by (simp add: deleteTask_route_def unvalidated_def deleteTask_handler_def delete_by_id_def
        uuid_in_not_a_uuid)
  show ?thesis
    using thrown_errors_are_translated [of "\<lparr>tasks = [], sent = 0\<rparr>" example_env "DELETE_task ''not-a-uuid''"] r
    by (simp add: invalid_uuid_def)
qed

section \<open>PUT /:id\<close>

text \<open>
  C2. For every identifier, UpdateTask with a body that has none of the recognised keys
  is answered with status 400 and code \<^verbatim>\<open>EMPTY_UPDATE\<close>, and the store is left exactly as it
  was: no statement is sent, so the task under that identifier, if there is one, is
  unchanged.
\<close>

theorem empty_update_is_rejected:
  assumes "list_all (\<lambda>(k, v). k \<notin> set recognized_keys) members"
  shows "UpdateTask d e ident (JObject members) =
           (json (ErrorBody ''No fields to update'' ''EMPTY_UPDATE'') 400, d)"
  by (simp add: UpdateTask_def updateTask_route_def validated_def zValidator_def
      updateTaskSchema_no_keys [OF assms] updateTask_handler_def Object_keys_def
      respond_def onError_def)

theorem empty_update_is_rejected_witness:
  "UpdateTask \<lparr>tasks = [example_task], sent = 0\<rparr> example_env ''550e8400-e29b-41d4-a716-446655440000''
     (JObject [(''id'', JString ''x''), (''updatedAt'', JNumber 5)]) =
   (json (ErrorBody ''No fields to update'' ''EMPTY_UPDATE'') 400, \<lparr>tasks = [example_task], sent = 0\<rparr>)"
  using empty_update_is_rejected [of "[(''id'', JString ''x''), (''updatedAt'', JNumber 5)]"
      "\<lparr>tasks = [example_task], sent = 0\<rparr>" example_env "''550e8400-e29b-41d4-a716-446655440000''"]
  by (simp add: recognized_keys_def)

text \<open>
  The claim C3 as it is written (\<^verbatim>\<open>updatedAt\<close> of the result is strictly greater than that
  of the task) fails: the handler assigns the reading of its clock, whatever the task
  holds. Here the task was last written at instant 1000 and the update runs at instant
  1000.
\<close>

theorem same_instant_update_counterexample:
  "fst (UpdateTask \<lparr>tasks = [example_task], sent = 0\<rparr> example_env
          ''550e8400-e29b-41d4-a716-446655440000'' (JObject [(''status'', JString ''done'')])) =
     json (TaskBody \<lparr>task_id = example_id, title = ''Buy milk'', description = None, status = Done,
                     priority = Medium, createdAt = 1000, updatedAt = 1000\<rparr>) 200 \<and>
   updatedAt example_task = 1000"
  by (simp add: UpdateTask_def updateTask_route_def validated_def zValidator_def
      updateTaskSchema_def lookup_key_def optional_def z_enum_def status_labels_def
      updateTask_handler_def Object_keys_def update_by_id_def uuid_in_example
      set_columns_def respond_def onError_def example_task_def example_env_def)

text \<open>
  C3, as amended. For every stored task \<open>t\<close> (identifiers being unique) and every update
  of it whose body has \<^verbatim>\<open>status\<close> with one of the three labels and none of \<^verbatim>\<open>title\<close>,
  \<^verbatim>\<open>description\<close>, \<^verbatim>\<open>priority\<close>: the response is 200 with the task that has the title,
  description, priority, identifier and \<^verbatim>\<open>createdAt\<close> of \<open>t\<close>, the status that was sent,
  and as \<^verbatim>\<open>updatedAt\<close> the instant the handler read from its clock; so \<^verbatim>\<open>updatedAt\<close> has
  grown exactly when that instant is later than the \<^verbatim>\<open>updatedAt\<close> of \<open>t\<close>. No default is
  applied to an absent key.
\<close>

theorem partial_update_preserves_fields:
  assumes "t \<in> set (tasks d)" and "distinct (map task_id (tasks d))"
    and "uuid_in ident = Some (task_id t)"
    and "lookup_key members ''status'' = Some (JString label)"
    and "map_of status_labels label = Some s"
    and "lookup_key members ''title'' = None"
    and "lookup_key members ''description'' = None"
    and "lookup_key members ''priority'' = None"
  shows "fst (UpdateTask d e ident (JObject members)) =
           json (TaskBody (t\<lparr>status := s, updatedAt := new_Date e\<rparr>)) 200"
proof -
  have "filter (\<lambda>r. task_id r = task_id t) (tasks d) = [t]"
    using assms(1,2) by (simp add: filter_distinct_key)
  moreover have "set_columns \<lparr>u_title = None, u_description = None, u_status = Some s, u_priority = None\<rparr>
                   (new_Date e) t = t\<lparr>status := s, updatedAt := new_Date e\<rparr>"
    by (simp add: set_columns_def)
  ultimately show ?thesis
    using assms(3)
    by (simp add: UpdateTask_def updateTask_route_def validated_def zValidator_def
        updateTaskSchema_status_only [OF assms(4-8)] updateTask_handler_def Object_keys_def
        update_by_id_def respond_def onError_def)
qed

theorem partial_update_preserves_fields_witness:
  "fst (UpdateTask \<lparr>tasks = [example_task], sent = 0\<rparr> \<lparr>new_Date = 3000, now = 3000, gen_random_uuid = []\<rparr>
          ''550e8400-e29b-41d4-a716-446655440000''
          (JObject [(''status'', JString ''done''), (''id'', JString ''x'')])) =
     json (TaskBody \<lparr>task_id = example_id, title = ''Buy milk'', description = None, status = Done,
                     priority = Medium, createdAt = 1000, updatedAt = 3000\<rparr>) 200"
  using partial_update_preserves_fields [of example_task "\<lparr>tasks = [example_task], sent = 0\<rparr>"
      "''550e8400-e29b-41d4-a716-446655440000''" "[(''status'', JString ''done''), (''id'', JString ''x'')]"
      "''done''" Done "\<lparr>new_Date = 3000, now = 3000, gen_random_uuid = []\<rparr>"]
  by (simp add: uuid_in_example lookup_key_def status_labels_def example_task_def)

section \<open>GET /\<close>

text \<open>
  C4. For every list request that the schema accepts, a filter is present in the
  validated input exactly when its parameter was sent, and the tasks returned are the
  page (offset, then limit) of the stored tasks that satisfy every filter that is present:
  both when status and priority are given, the one that is given when only one is, and
  no filter at all when neither is. One statement is sent to the store.
\<close>

theorem list_filters_are_conjoined:
  assumes "querySchema q = Inr v"
  shows "l_status v = (case q_status q of None \<Rightarrow> None | Some label \<Rightarrow> map_of status_labels label) \<and>
         l_priority v = (case q_priority q of None \<Rightarrow> None | Some label \<Rightarrow> map_of priority_labels label) \<and>
         ListTasks d q =
           (json (ListBody (listed v (tasks d)) (l_limit v) (l_offset v) (length (listed v (tasks d)))) 200,
            round_trip d)"
proof -
  have s: "l_status v = (case q_status q of None \<Rightarrow> None | Some label \<Rightarrow> map_of status_labels label)"
    using assms
    by (auto simp: querySchema_def optional_def z_enum_def split: parsed.splits option.splits)
  have p: "l_priority v = (case q_priority q of None \<Rightarrow> None | Some label \<Rightarrow> map_of priority_labels label)"
    using assms
    by (auto simp: querySchema_def optional_def z_enum_def split: parsed.splits option.splits)
  show ?thesis
    using s p assms
    by (simp add: ListTasks_def listTasks_route_def validated_def zValidator_def respond_def
        onError_def listTasks_handler_eq)
qed

theorem list_filters_are_conjoined_witness:
  "ListTasks \<lparr>tasks = [task_todo_low, task_todo_high, task_done_high], sent = 0\<rparr>
     \<lparr>q_status = Some ''todo'', q_priority = Some ''high'', q_limit = None, q_offset = None\<rparr> =
   (json (ListBody [task_todo_high] 20 0 1) 200,
    \<lparr>tasks = [task_todo_low, task_todo_high, task_done_high], sent = 1\<rparr>)"
proof -
  have q: "querySchema \<lparr>q_status = Some ''todo'', q_priority = Some ''high'', q_limit = None, q_offset = None\<rparr> =
           Inr \<lparr>l_status = Some Todo, l_priority = Some High, l_limit = 20, l_offset = 0\<rparr>"
    by (simp add: querySchema_def optional_def z_enum_def status_labels_def priority_labels_def
        coerce_default_def z_int_min_max_def MAX_SAFE_INTEGER_def)
  show ?thesis
    using list_filters_are_conjoined [OF q, of "\<lparr>tasks = [task_todo_low, task_todo_high, task_done_high], sent = 0\<rparr>"]
    by (simp add: listed_def satisfies_filters_def task_todo_low_def task_todo_high_def
        task_done_high_def round_trip_def)
qed

text \<open>
  The claim C5 as it is written (an offset that is not numeric is answered with 400)
  fails: the schema coerces the text with \<^verbatim>\<open>Number\<close>, which reads an empty text as 0, so
  \<^verbatim>\<open>?offset=\<close> is answered with 200 and the first page.
\<close>

theorem blank_offset_counterexample:
  "ListTasks \<lparr>tasks = [task_todo_low], sent = 0\<rparr>
     \<lparr>q_status = None, q_priority = None, q_limit = None, q_offset = Some []\<rparr> =
   (json (ListBody [task_todo_low] 20 0 1) 200, \<lparr>tasks = [task_todo_low], sent = 1\<rparr>)"
  by (simp add: ListTasks_def listTasks_route_def validated_def zValidator_def querySchema_def
      optional_def coerce_default_def Number_blank z_int_min_max_def MAX_SAFE_INTEGER_def
      respond_def onError_def listTasks_handler_eq listed_def satisfies_filters_def round_trip_def)

text \<open>
  C5, as amended. For every list request: a limit whose text \<^verbatim>\<open>Number\<close> reads as \<^verbatim>\<open>NaN\<close>, as
  no integer or as a number outside 1 to 100, and an offset whose text it reads as \<^verbatim>\<open>NaN\<close>,
  as no integer or as a number below 0 or above \<open>2 ^ 53 - 1\<close>, is answered with status 400
  and the store is left as it was (no statement is sent). For a request that the schema
  accepts, the limit is the number sent, or 20 when none was sent, the offset is the
  number sent, or 0 when none was sent, and the data of the response has at most limit
  items. The schema accepts every request whose limit and offset are within these
  bounds and whose filters are absent or one of their labels. A text that is empty or
  all white space reads as 0: such an offset is the offset 0, such a limit is refused.
\<close>

theorem pagination_bounds:
  "(\<not> limit_ok (q_limit q) \<or> \<not> offset_ok (q_offset q) \<longrightarrow>
      (\<exists>issues. ListTasks d q = (json (ZodErrorBody issues) 400, d))) \<and>
   (querySchema q' = Inr v \<longrightarrow>
      JS_Integer (l_limit v) = (case q_limit q' of None \<Rightarrow> JS_Integer 20 | Some text \<Rightarrow> Number text) \<and>
      JS_Integer (l_offset v) = (case q_offset q' of None \<Rightarrow> JS_Integer 0 | Some text \<Rightarrow> Number text) \<and>
      1 \<le> l_limit v \<and> l_limit v \<le> 100 \<and> 0 \<le> l_offset v \<and> l_offset v \<le> MAX_SAFE_INTEGER \<and>
      (\<exists>data. fst (ListTasks d' q') = json (ListBody data (l_limit v) (l_offset v) (length data)) 200 \<and>
              int (length data) \<le> l_limit v)) \<and>
   (label_ok status_labels (q_status q'') \<and> label_ok priority_labels (q_priority q'') \<and>
    limit_ok (q_limit q'') \<and> offset_ok (q_offset q'') \<longrightarrow>
      (\<exists>v'. querySchema q'' = Inr v')) \<and>
   (trim text = [] \<longrightarrow> Number text = JS_Integer 0)"
proof (intro conjI impI)
  assume bad: "\<not> limit_ok (q_limit q) \<or> \<not> offset_ok (q_offset q)"
  have "coerce_default (z_int_min_max 1 (Some 100)) 20 (q_limit q) = Invalid \<or>
        coerce_default (z_int_min_max 0 None) 0 (q_offset q) = Invalid"
    using bad
    by (auto simp: limit_ok_def offset_ok_def coerce_default_def z_int_min_max_def
        split: option.splits js_number.splits)
  then have "\<exists>issues. querySchema q = Inl issues"
    by (cases "optional (z_enum status_labels) (map_option JString (q_status q))";
        cases "optional (z_enum priority_labels) (map_option JString (q_priority q))";
        cases "coerce_default (z_int_min_max 1 (Some 100)) 20 (q_limit q)";
        cases "coerce_default (z_int_min_max 0 None) 0 (q_offset q)")
       (auto simp: querySchema_def)
  then obtain issues where "querySchema q = Inl issues" ..
  then have "ListTasks d q = (json (ZodErrorBody issues) 400, d)"
    by (simp add: ListTasks_def listTasks_route_def validated_def zValidator_def respond_def)
  then show "\<exists>issues. ListTasks d q = (json (ZodErrorBody issues) 400, d)" ..
next
  assume ok: "querySchema q' = Inr v"
  then have l: "coerce_default (z_int_min_max 1 (Some 100)) 20 (q_limit q') = Valid (l_limit v)"
    and off: "coerce_default (z_int_min_max 0 None) 0 (q_offset q') = Valid (l_offset v)"
    by (auto simp: querySchema_def split: parsed.splits)
  from l show "JS_Integer (l_limit v) = (case q_limit q' of None \<Rightarrow> JS_Integer 20 | Some text \<Rightarrow> Number text)"
    by (auto simp: coerce_default_def z_int_min_max_def split: option.splits js_number.splits if_splits)
  from off show "JS_Integer (l_offset v) = (case q_offset q' of None \<Rightarrow> JS_Integer 0 | Some text \<Rightarrow> Number text)"
    by (auto simp: coerce_default_def z_int_min_max_def split: option.splits js_number.splits if_splits)
  from l show l1: "1 \<le> l_limit v"
    by (auto simp: coerce_default_def z_int_min_max_def split: option.splits js_number.splits if_splits)
  from l show "l_limit v \<le> 100"
    by (auto simp: coerce_default_def z_int_min_max_def split: option.splits js_number.splits if_splits)
  from off show "0 \<le> l_offset v"
    by (auto simp: coerce_default_def z_int_min_max_def split: option.splits js_number.splits if_splits)
  from off show "l_offset v \<le> MAX_SAFE_INTEGER"
    by (auto simp: coerce_default_def z_int_min_max_def split: option.splits js_number.splits if_splits)
  have "fst (ListTasks d' q') =
          json (ListBody (listed v (tasks d')) (l_limit v) (l_offset v) (length (listed v (tasks d')))) 200"
    using ok
    by (simp add: ListTasks_def listTasks_route_def validated_def zValidator_def respond_def
        onError_def listTasks_handler_eq)
  moreover have "int (length (listed v (tasks d'))) \<le> l_limit v"
    using l1 by (simp add: listed_def)
  ultimately show "\<exists>data. fst (ListTasks d' q') = json (ListBody data (l_limit v) (l_offset v) (length data)) 200 \<and>
              int (length data) \<le> l_limit v"
    by blast
next
  assume a: "label_ok status_labels (q_status q'') \<and> label_ok priority_labels (q_priority q'') \<and>
    limit_ok (q_limit q'') \<and> offset_ok (q_offset q'')"
  then have "\<exists>s. optional (z_enum status_labels) (map_option JString (q_status q'')) = Valid s"
    by (auto simp: label_ok_def optional_def z_enum_def split: option.splits)
  moreover from a have "\<exists>p. optional (z_enum priority_labels) (map_option JString (q_priority q'')) = Valid p"
    by (auto simp: label_ok_def optional_def z_enum_def split: option.splits)
  moreover from a have "\<exists>l. coerce_default (z_int_min_max 1 (Some 100)) 20 (q_limit q'') = Valid l"
    by (auto simp: limit_ok_def coerce_default_def z_int_min_max_def MAX_SAFE_INTEGER_def
        split: option.splits js_number.splits)
  moreover from a have "\<exists>off. coerce_default (z_int_min_max 0 None) 0 (q_offset q'') = Valid off"
    by (auto simp: offset_ok_def coerce_default_def z_int_min_max_def MAX_SAFE_INTEGER_def
        split: option.splits js_number.splits)
  ultimately show "\<exists>v'. querySchema q'' = Inr v'"
    by (auto simp: querySchema_def)
next
  assume "trim text = []"
  then show "Number text = JS_Integer 0"
    by (simp add: Number_def)
qed

theorem pagination_bounds_witness:
  "(\<exists>issues. ListTasks \<lparr>tasks = [task_todo_low], sent = 0\<rparr>
       \<lparr>q_status = None, q_priority = None, q_limit = Some ''101'', q_offset = None\<rparr> =
     (json (ZodErrorBody issues) 400, \<lparr>tasks = [task_todo_low], sent = 0\<rparr>)) \<and>
   (\<exists>data. fst (ListTasks \<lparr>tasks = [task_todo_low], sent = 0\<rparr>
       \<lparr>q_status = None, q_priority = None, q_limit = None, q_offset = None\<rparr>) =
     json (ListBody data 20 0 (length data)) 200 \<and> int (length data) \<le> 20) \<and>
   (\<exists>v'. querySchema \<lparr>q_status = Some ''todo'', q_priority = None, q_limit = Some ''10'', q_offset = Some ''5''\<rparr> =
     Inr v') \<and>
   Number '' '' = JS_Integer 0"
proof -
  have q: "querySchema \<lparr>q_status = None, q_priority = None, q_limit = None, q_offset = None\<rparr> =
           Inr \<lparr>l_status = None, l_priority = None, l_limit = 20, l_offset = 0\<rparr>"
    by (simp add: querySchema_def optional_def coerce_default_def z_int_min_max_def MAX_SAFE_INTEGER_def)
  have bad: "\<not> limit_ok (q_limit \<lparr>q_status = None, q_priority = None, q_limit = Some ''101'', q_offset = None\<rparr>)"
    by (simp add: limit_ok_def Number_101)
  have good: "label_ok status_labels (q_status \<lparr>q_status = Some ''todo'', q_priority = None, q_limit = Some ''10'', q_offset = Some ''5''\<rparr>) \<and>
      label_ok priority_labels (q_priority \<lparr>q_status = Some ''todo'', q_priority = None, q_limit = Some ''10'', q_offset = Some ''5''\<rparr>) \<and>
      limit_ok (q_limit \<lparr>q_status = Some ''todo'', q_priority = None, q_limit = Some ''10'', q_offset = Some ''5''\<rparr>) \<and>
      offset_ok (q_offset \<lparr>q_status = Some ''todo'', q_priority = None, q_limit = Some ''10'', q_offset = Some ''5''\<rparr>)"
    by (simp add: label_ok_def status_labels_def limit_ok_def offset_ok_def Number_10 Number_5
        MAX_SAFE_INTEGER_def)
  have blank: "trim '' '' = []"
    by (simp add: trim_def white_space_def)
  show ?thesis
    using pagination_bounds [of "\<lparr>q_status = None, q_priority = None, q_limit = Some ''101'', q_offset = None\<rparr>"
        "\<lparr>tasks = [task_todo_low], sent = 0\<rparr>"
        "\<lparr>q_status = None, q_priority = None, q_limit = None, q_offset = None\<rparr>"
        "\<lparr>l_status = None, l_priority = None, l_limit = 20, l_offset = 0\<rparr>"
        "\<lparr>tasks = [task_todo_low], sent = 0\<rparr>"
        "\<lparr>q_status = Some ''todo'', q_priority = None, q_limit = Some ''10'', q_offset = Some ''5''\<rparr>"
        "'' ''"] q bad good blank
    by simp
qed

section \<open>POST /\<close>

text \<open>
  The claim C6 as it is written (the trimmed length of the title must be between 1 and
  256) fails: the schema measures the title as it was sent. A title of one space has
  the trimmed length 0 and is accepted.
\<close>

theorem blank_title_counterexample:
  "length (trim '' '') = 0 \<and>
   fst (CreateTask \<lparr>tasks = [], sent = 0\<rparr> example_env (JObject [(''title'', JString '' '')])) =
     json (TaskBody \<lparr>task_id = example_id, title = '' '', description = None, status = Todo,
                     priority = Medium, createdAt = 2000, updatedAt = 2000\<rparr>) 201"
  by (simp add: trim_def white_space_def CreateTask_def createTask_route_def validated_def zValidator_def
      createTaskSchema_def lookup_key_def z_string_min_max_def optional_def nullable_def
      optional_default_def z_enum_def status_labels_def priority_labels_def
      createTask_handler_def insert_task_def text_ok_def new_row_def respond_def onError_def
      example_env_def)

text \<open>
  C6, as amended. For every create request: a body whose title is absent, is not a
  string, or has a length, as sent and not trimmed, outside 1 to 256 is answered with
  status 400, the title among the issues, and nothing is sent to the store. A body with
  a title of length 1 to 256, a description that is absent, \<^verbatim>\<open>null\<close> or a string, a status
  and a priority that are absent or one of their labels, is answered, when neither the
  title nor the description holds the character U+0000 and the store draws an unused
  identifier, with 201 and the row stored: that identifier, the title, the description
  (\<^verbatim>\<open>null\<close> when absent), the status (\<^verbatim>\<open>todo\<close> when absent), the priority (\<^verbatim>\<open>medium\<close> when
  absent), and \<^verbatim>\<open>createdAt\<close> equal to \<^verbatim>\<open>updatedAt\<close>.
\<close>

theorem create_validates_and_defaults:
  "((case lookup_key members ''title'' of
       Some (JString s) \<Rightarrow> length s < 1 \<or> 256 < length s
     | _ \<Rightarrow> True) \<longrightarrow>
    (\<exists>issues. CreateTask d e (JObject members) = (json (ZodErrorBody issues) 400, d) \<and>
              ''title'' \<in> set issues)) \<and>
   (lookup_key members' ''title'' = Some (JString s') \<and> 1 \<le> length s' \<and> length s' \<le> 256 \<and>
    text_ok s' \<and>
    (lookup_key members' ''description'' = None \<and> de = None \<or>
     lookup_key members' ''description'' = Some JNull \<and> de = None \<or>
     (\<exists>x. lookup_key members' ''description'' = Some (JString x) \<and> text_ok x \<and> de = Some x)) \<and>
    (lookup_key members' ''status'' = None \<and> st = Todo \<or>
     (\<exists>label. lookup_key members' ''status'' = Some (JString label) \<and>
              map_of status_labels label = Some st)) \<and>
    (lookup_key members' ''priority'' = None \<and> pr = Medium \<or>
     (\<exists>label. lookup_key members' ''priority'' = Some (JString label) \<and>
              map_of priority_labels label = Some pr)) \<and>
    gen_random_uuid e' \<notin> set (map task_id (tasks d')) \<longrightarrow>
    CreateTask d' e' (JObject members') =
      (json (TaskBody \<lparr>task_id = gen_random_uuid e', title = s', description = de, status = st,
                       priority = pr, createdAt = now e', updatedAt = now e'\<rparr>) 201,
       round_trip (d'\<lparr>tasks := tasks d' @
          [\<lparr>task_id = gen_random_uuid e', title = s', description = de, status = st,
            priority = pr, createdAt = now e', updatedAt = now e'\<rparr>]\<rparr>)))"
proof (intro conjI impI)
  assume bad: "case lookup_key members ''title'' of
       Some (JString s) \<Rightarrow> length s < 1 \<or> 256 < length s
     | _ \<Rightarrow> True"
  then have t: "z_string_min_max 1 256 (lookup_key members ''title'') = Invalid"
    by (auto simp: z_string_min_max_def split: option.splits json_value.splits)
  have "\<exists>rest. createTaskSchema (JObject members) = Inl (''title'' # rest)"
    using t by (simp add: createTaskSchema_def refused_def)
  then obtain rest where "createTaskSchema (JObject members) = Inl (''title'' # rest)" ..
  then have "CreateTask d e (JObject members) = (json (ZodErrorBody (''title'' # rest)) 400, d) \<and>
             ''title'' \<in> set (''title'' # rest)"
    by (simp add: CreateTask_def createTask_route_def validated_def zValidator_def respond_def)
  then show "\<exists>issues. CreateTask d e (JObject members) = (json (ZodErrorBody issues) 400, d) \<and>
              ''title'' \<in> set issues" ..
next
  assume a: "lookup_key members' ''title'' = Some (JString s') \<and> 1 \<le> length s' \<and> length s' \<le> 256 \<and>
    text_ok s' \<and>
    (lookup_key members' ''description'' = None \<and> de = None \<or>
     lookup_key members' ''description'' = Some JNull \<and> de = None \<or>
     (\<exists>x. lookup_key members' ''description'' = Some (JString x) \<and> text_ok x \<and> de = Some x)) \<and>
    (lookup_key members' ''status'' = None \<and> st = Todo \<or>
     (\<exists>label. lookup_key members' ''status'' = Some (JString label) \<and>
              map_of status_labels label = Some st)) \<and>
    (lookup_key members' ''priority'' = None \<and> pr = Medium \<or>
     (\<exists>label. lookup_key members' ''priority'' = Some (JString label) \<and>
              map_of priority_labels label = Some pr)) \<and>
    gen_random_uuid e' \<notin> set (map task_id (tasks d'))"
  then have t: "z_string_min_max 1 256 (lookup_key members' ''title'') = Valid s'"
    by (auto simp: z_string_min_max_def)
  from a have s: "optional_default (z_enum status_labels) (JString ''todo'') (lookup_key members' ''status'') = Valid st"
    by (auto simp: optional_default_def z_enum_def status_labels_def)
  from a have p: "optional_default (z_enum priority_labels) (JString ''medium'') (lookup_key members' ''priority'') = Valid pr"
    by (auto simp: optional_default_def z_enum_def priority_labels_def)
  from a have "\<exists>dv. optional (nullable z_string) (lookup_key members' ''description'') = Valid dv \<and>
                 (case dv of None \<Rightarrow> None | Some x \<Rightarrow> x) = de \<and>
                 (case dv of None \<Rightarrow> True | Some None \<Rightarrow> True | Some (Some x) \<Rightarrow> text_ok x)"
    by (auto simp: optional_def nullable_def z_string_def)
  then obtain dv where dv: "optional (nullable z_string) (lookup_key members' ''description'') = Valid dv"
    and de: "(case dv of None \<Rightarrow> None | Some x \<Rightarrow> x) = de"
    and dok: "(case dv of None \<Rightarrow> True | Some None \<Rightarrow> True | Some (Some x) \<Rightarrow> text_ok x)" by blast
  have "createTaskSchema (JObject members') =
          Inr \<lparr>c_title = s', c_description = dv, c_status = st, c_priority = pr\<rparr>"
    using t s p dv by (simp add: createTaskSchema_def)
  with a de dok show "CreateTask d' e' (JObject members') =
      (json (TaskBody \<lparr>task_id = gen_random_uuid e', title = s', description = de, status = st,
                       priority = pr, createdAt = now e', updatedAt = now e'\<rparr>) 201,
       round_trip (d'\<lparr>tasks := tasks d' @
          [\<lparr>task_id = gen_random_uuid e', title = s', description = de, status = st,
            priority = pr, createdAt = now e', updatedAt = now e'\<rparr>]\<rparr>))"
    by (simp add: CreateTask_def createTask_route_def validated_def zValidator_def
        createTask_handler_def insert_task_def new_row_def respond_def onError_def)
qed

theorem create_validates_and_defaults_witness:
  "(\<exists>issues. CreateTask \<lparr>tasks = [], sent = 0\<rparr> example_env (JObject [(''title'', JString [])]) =
      (json (ZodErrorBody issues) 400, \<lparr>tasks = [], sent = 0\<rparr>) \<and> ''title'' \<in> set issues) \<and>
   CreateTask \<lparr>tasks = [], sent = 0\<rparr> example_env (JObject [(''title'', JString ''Buy milk'')]) =
     (json (TaskBody \<lparr>task_id = example_id, title = ''Buy milk'', description = None, status = Todo,
                      priority = Medium, createdAt = 2000, updatedAt = 2000\<rparr>) 201,
      \<lparr>tasks = [\<lparr>task_id = example_id, title = ''Buy milk'', description = None, status = Todo,
                  priority = Medium, createdAt = 2000, updatedAt = 2000\<rparr>], sent = 1\<rparr>)"
  using create_validates_and_defaults [of "[(''title'', JString [])]" "\<lparr>tasks = [], sent = 0\<rparr>" example_env
      "[(''title'', JString ''Buy milk'')]" "''Buy milk''" None Todo Medium example_env "\<lparr>tasks = [], sent = 0\<rparr>"]
  by (simp add: lookup_key_def example_env_def round_trip_def text_ok_def)

section \<open>GET /:id\<close>

text \<open>
  C7. GetTask checks the path parameter against the canonical version-4 layout before it
  sends anything to the store: an identifier that is not in the layout is answered with
  400, code \<^verbatim>\<open>INVALID_ID\<close> and message \<^verbatim>\<open>Invalid task ID format\<close>, the store left as it was (no
  statement sent); an identifier in the layout that no stored task has is answered with
  404, code \<^verbatim>\<open>TASK_NOT_FOUND\<close>.
\<close>

theorem GetTask_validates_id:
  "(\<not> uuid_v4_layout ident \<longrightarrow>
      GetTask d ident = (json (ErrorBody ''Invalid task ID format'' ''INVALID_ID'') 400, d)) \<and>
   (uuid_v4_layout ident' \<and> list_all (\<lambda>t. Some (task_id t) \<noteq> uuid_in ident') (tasks d') \<longrightarrow>
      fst (GetTask d' ident') = json (ErrorBody ''Task not found'' ''TASK_NOT_FOUND'') 404)"
proof (intro conjI impI)
  assume "\<not> uuid_v4_layout ident"
  then show "GetTask d ident = (json (ErrorBody ''Invalid task ID format'' ''INVALID_ID'') 400, d)"
    by (simp add: regex_eq_layout GetTask_def getTask_route_def unvalidated_def getTask_handler_def
        respond_def onError_def)
next
  assume a: "uuid_v4_layout ident' \<and> list_all (\<lambda>t. Some (task_id t) \<noteq> uuid_in ident') (tasks d')"
  then obtain u where u: "uuid_in ident' = Some u"
    using regex_uuid_in regex_eq_layout by blast
  with a have "filter (\<lambda>t. task_id t = u) (tasks d') = []"
    by (intro filter_none) (auto simp: list_all_iff)
  with a u show "fst (GetTask d' ident') = json (ErrorBody ''Task not found'' ''TASK_NOT_FOUND'') 404"
    by (simp add: regex_eq_layout GetTask_def getTask_route_def unvalidated_def getTask_handler_def
        select_by_id_def respond_def onError_def)
qed

theorem GetTask_validates_id_witness:
  "\<not> uuid_v4_layout ''not-a-uuid'' \<and>
   GetTask \<lparr>tasks = [], sent = 0\<rparr> ''not-a-uuid'' =
     (json (ErrorBody ''Invalid task ID format'' ''INVALID_ID'') 400, \<lparr>tasks = [], sent = 0\<rparr>) \<and>
   uuid_v4_layout ''550e8400-e29b-41d4-a716-446655440000'' \<and>
   fst (GetTask \<lparr>tasks = [], sent = 0\<rparr> ''550e8400-e29b-41d4-a716-446655440000'') =
     json (ErrorBody ''Task not found'' ''TASK_NOT_FOUND'') 404"
  using GetTask_validates_id [of "''not-a-uuid''" "\<lparr>tasks = [], sent = 0\<rparr>"
      "''550e8400-e29b-41d4-a716-446655440000''" "\<lparr>tasks = [], sent = 0\<rparr>"]
    layout_example layout_not_a_uuid
  by simp

section \<open>DELETE /:id\<close>

text \<open>
  C8. The claim is that an unsuccessful DELETE fails only with 404 and code
  \<^verbatim>\<open>TASK_NOT_FOUND\<close>, for an identifier that is no uuid too. The handler sends the path
  parameter to the store unchecked, where GET /:id checks it first: for \<^verbatim>\<open>not-a-uuid\<close> the
  store refuses the statement, the handler does not catch the error, and the error
  handler answers 500 with code \<^verbatim>\<open>INTERNAL_ERROR\<close>.
\<close>

theorem DeleteTask_invalid_id_is_500:
  "fst (DeleteTask \<lparr>tasks = [], sent = 0\<rparr> ''not-a-uuid'') =
     json (ErrorBody ''Internal Server Error'' ''INTERNAL_ERROR'') 500"
  by (simp add: DeleteTask_def deleteTask_route_def unvalidated_def deleteTask_handler_def
      delete_by_id_def uuid_in_not_a_uuid respond_def onError_def invalid_uuid_def)

text \<open>
  On an identifier that the store reads as a uuid the handler does what the claim says:
  200 with the deleted row when a stored task has the identifier, and otherwise 404 with
  code \<^verbatim>\<open>TASK_NOT_FOUND\<close>.
\<close>

lemma DeleteTask_fails_with_404:
  assumes "uuid_in ident = Some u"
  shows "fst (DeleteTask d ident) =
     (case filter (\<lambda>t. task_id t = u) (tasks d) of
        [] \<Rightarrow> json (ErrorBody ''Task not found'' ''TASK_NOT_FOUND'') 404
      | t # rest \<Rightarrow> json (TaskBody t) 200)"
  using assms
  by (simp add: DeleteTask_def deleteTask_route_def unvalidated_def deleteTask_handler_def
      delete_by_id_def respond_def onError_def split: list.splits)

lemma DeleteTask_fails_with_404_example:
  "fst (DeleteTask \<lparr>tasks = [], sent = 0\<rparr> ''550e8400-e29b-41d4-a716-446655440000'') =
     json (ErrorBody ''Task not found'' ''TASK_NOT_FOUND'') 404"
  using DeleteTask_fails_with_404 [OF uuid_in_example, of "\<lparr>tasks = [], sent = 0\<rparr>"]
  by simp

section \<open>Deletion is terminal\<close>

text \<open>
  The claim C9 as it is written (after a successful DeleteTask(id), every GetTask(id)
  answers 404) fails for an identifier that the store reads as a uuid and that is not in
  the canonical layout, since GET checks the layout and DELETE does not: the text of the
  example identifier without its hyphens deletes the task, and GetTask on the same text
  answers 400 \<^verbatim>\<open>INVALID_ID\<close>.
\<close>

theorem delete_then_get_counterexample:
  "DeleteTask \<lparr>tasks = [example_task], sent = 0\<rparr> ''550e8400e29b41d4a716446655440000'' =
     (json (TaskBody example_task) 200, \<lparr>tasks = [], sent = 1\<rparr>) \<and>
   fst (GetTask \<lparr>tasks = [], sent = 1\<rparr> ''550e8400e29b41d4a716446655440000'') =
     json (ErrorBody ''Invalid task ID format'' ''INVALID_ID'') 400"
  by (simp add: DeleteTask_def deleteTask_route_def unvalidated_def deleteTask_handler_def
      delete_by_id_def uuid_in_example_bare respond_def onError_def round_trip_def
      GetTask_def getTask_route_def getTask_handler_def regex_eq_layout layout_bare example_task_def)

text \<open>
  C9, as amended. After DeleteTask(id) has answered 200, in the store it leaves: a second
  DeleteTask(id) answers 404 \<^verbatim>\<open>TASK_NOT_FOUND\<close>; GetTask(id) answers 404 \<^verbatim>\<open>TASK_NOT_FOUND\<close> when
  the identifier is in the canonical layout and 400 \<^verbatim>\<open>INVALID_ID\<close> when it is not; and no
  row of the table has the identifier, so no operation returns the deleted task.
\<close>

theorem deleted_row_is_gone:
  assumes "DeleteTask d ident = (r, d')" and "statusCode r = 200"
  shows "fst (DeleteTask d' ident) = json (ErrorBody ''Task not found'' ''TASK_NOT_FOUND'') 404 \<and>
         fst (GetTask d' ident) =
           (if uuid_v4_layout ident
            then json (ErrorBody ''Task not found'' ''TASK_NOT_FOUND'') 404
            else json (ErrorBody ''Invalid task ID format'' ''INVALID_ID'') 400) \<and>
         list_all (\<lambda>t. Some (task_id t) \<noteq> uuid_in ident) (tasks d')"
proof -
  from assms obtain u where u: "uuid_in ident = Some u"
    by (cases "uuid_in ident")
       (auto simp: DeleteTask_def deleteTask_route_def unvalidated_def deleteTask_handler_def
          delete_by_id_def respond_def onError_def invalid_uuid_def json_def)
  with assms(1) have d': "tasks d' = filter (\<lambda>t. task_id t \<noteq> u) (tasks d)"
    by (auto simp: DeleteTask_def deleteTask_route_def unvalidated_def deleteTask_handler_def
          delete_by_id_def respond_def round_trip_def split: list.splits)
  then have none: "filter (\<lambda>t. task_id t = u) (tasks d') = []"
    by (simp add: filter_empty_conv)
  show ?thesis
    using u none d'
    by (simp add: DeleteTask_def deleteTask_route_def unvalidated_def deleteTask_handler_def
        delete_by_id_def respond_def onError_def GetTask_def getTask_route_def getTask_handler_def
        select_by_id_def regex_eq_layout list_all_iff)
qed

theorem deleted_row_is_gone_witness:
  "DeleteTask \<lparr>tasks = [example_task], sent = 0\<rparr> ''550e8400-e29b-41d4-a716-446655440000'' =
     (json (TaskBody example_task) 200, \<lparr>tasks = [], sent = 1\<rparr>) \<and>
   fst (DeleteTask \<lparr>tasks = [], sent = 1\<rparr> ''550e8400-e29b-41d4-a716-446655440000'') =
     json (ErrorBody ''Task not found'' ''TASK_NOT_FOUND'') 404 \<and>
   fst (GetTask \<lparr>tasks = [], sent = 1\<rparr> ''550e8400-e29b-41d4-a716-446655440000'') =
     json (ErrorBody ''Task not found'' ''TASK_NOT_FOUND'') 404"
proof -
  have del: "DeleteTask \<lparr>tasks = [example_task], sent = 0\<rparr> ''550e8400-e29b-41d4-a716-446655440000'' =
     (json (TaskBody example_task) 200, \<lparr>tasks = [], sent = 1\<rparr>)"
    by (simp add: DeleteTask_def deleteTask_route_def unvalidated_def deleteTask_handler_def
      delete_by_id_def uuid_in_example respond_def onError_def round_trip_def example_task_def)
  have ok: "statusCode (json (TaskBody example_task) 200) = 200"
    by (simp add: json_def)
  show ?thesis
    using deleted_row_is_gone [OF del ok] layout_example del by simp
qed

section \<open>Keys that the schemas do not recognise\<close>

text \<open>
  C10. For every create and every update request, the response and the store that is
  left are those of the same request with only the keys \<^verbatim>\<open>title\<close>, \<^verbatim>\<open>description\<close>, \<^verbatim>\<open>status\<close>
  and \<^verbatim>\<open>priority\<close> in its body: every other key (\<^verbatim>\<open>id\<close>, \<^verbatim>\<open>createdAt\<close>, \<^verbatim>\<open>updatedAt\<close> among them)
  is dropped, makes no request fail and has no influence on the row that is stored.
\<close>

theorem unknown_keys_are_dropped:
  "CreateTask d e (JObject (filter (\<lambda>(k, v). k \<in> set recognized_keys) members)) =
     CreateTask d e (JObject members) \<and>
   UpdateTask d e ident (JObject (filter (\<lambda>(k, v). k \<in> set recognized_keys) members)) =
     UpdateTask d e ident (JObject members)"
  by (simp add: CreateTask_def UpdateTask_def createTask_route_def updateTask_route_def
      validated_def zValidator_def createTaskSchema_filter updateTaskSchema_filter)

theorem unknown_keys_are_dropped_witness:
  "CreateTask \<lparr>tasks = [], sent = 0\<rparr> example_env (JObject [(''title'', JString ''Buy milk'')]) =
     CreateTask \<lparr>tasks = [], sent = 0\<rparr> example_env
       (JObject [(''id'', JString ''x''), (''title'', JString ''Buy milk''), (''createdAt'', JNumber 5)]) \<and>
   UpdateTask \<lparr>tasks = [example_task], sent = 0\<rparr> example_env ''550e8400-e29b-41d4-a716-446655440000''
       (JObject [(''status'', JString ''done'')]) =
     UpdateTask \<lparr>tasks = [example_task], sent = 0\<rparr> example_env ''550e8400-e29b-41d4-a716-446655440000''
       (JObject [(''status'', JString ''done''), (''updatedAt'', JNumber 5)])"
  using unknown_keys_are_dropped [of "\<lparr>tasks = [], sent = 0\<rparr>" example_env
      "[(''id'', JString ''x''), (''title'', JString ''Buy milk''), (''createdAt'', JNumber 5)]"]
    unknown_keys_are_dropped [of "\<lparr>tasks = [example_task], sent = 0\<rparr>" example_env
      "[(''status'', JString ''done''), (''updatedAt'', JNumber 5)]" "''550e8400-e29b-41d4-a716-446655440000''"]
  by (simp add: recognized_keys_def)

end
